(* ===== verification/Prelude.thy ===== *)
theory Prelude
  imports Main "HOL-Library.Word"
begin

text \<open>
  Shared vocabulary of the Yearning development: the machine integer type that Go's
  \<open>int\<close> is on the 64-bit targets the server is built for, the rule collections the
  component theories fill, and generic facts on lists and words that the paging, the
  workflow store and the account store all use.
\<close>

section \<open>Types\<close>

text \<open>Go's \<open>int\<close> on amd64/arm64: 64 bits, two's complement, wrapping arithmetic.\<close>

type_synonym int64 = "64 word"

text \<open>A row predicate: one gorm scope \<open>func(*gorm.DB) *gorm.DB\<close> that adds a
  \<open>WHERE\<close> condition, read as the condition it adds.\<close>

type_synonym 'r scope = "'r \<Rightarrow> bool"

section \<open>Rule collections\<close>

named_theorems page_simps "equations that evaluate a page of a list query"
named_theorems store_simps "equations for lookups and updates of the modelled stores"

section \<open>Lists\<close>

text \<open>Consecutive windows of width \<open>n\<close> tile a list: the \<open>k\<close> first pages of a
  list, each of \<open>n\<close> rows, are its first \<open>k * n\<close> rows.\<close>

lemma concat_windows:
  "concat (map (\<lambda>i. take n (drop (i * n) xs)) [0..<k]) = take (k * n) xs"
proof (induction k)
  case 0
  then show ?case by simp
next
  case (Suc k)
  have "Suc k * n = k * n + n" by simp
  then have "take (Suc k * n) xs = take (k * n) xs @ take n (drop (k * n) xs)"
    by (simp only: take_add)
  with Suc.IH show ?case by simp
qed

lemma length_window [page_simps]:
  "length (take n (drop m xs)) = min n (length xs - m)"
  by simp

lemma window_subset: "set (take n (drop m xs)) \<subseteq> set xs"
  by (meson order_trans set_drop_subset set_take_subset)

lemma distinct_window: "distinct xs \<Longrightarrow> distinct (take n (drop m xs))"
  by simp

lemma list_all_remove1: "list_all P xs \<Longrightarrow> list_all P (remove1 x xs)"
  using set_remove1_subset [of x xs] by (auto simp: list_all_iff)

text \<open>Looking a key up in an association list kept with the newest entry first.\<close>


lemma find_Some_in_set [store_simps]: "find P xs = Some x \<Longrightarrow> x \<in> set xs \<and> P x"
  by (induction xs) (auto split: if_splits)

lemma find_None_iff' [store_simps]: "(find P xs = None) = (\<forall>x \<in> set xs. \<not> P x)"
  by (induction xs) auto

lemma find_append [store_simps]:
  "find P (xs @ ys) = (case find P xs of None \<Rightarrow> find P ys | Some x \<Rightarrow> Some x)"
  by (induction xs) auto


section \<open>64-bit words\<close>

text \<open>Below \<open>2 ^ 63 = 9223372036854775808\<close> a signed 64-bit product and difference do not wrap: the
  bounds on which the paging arithmetic is exact.\<close>

lemma sint_int64_of_int:
  "- 9223372036854775808 \<le> i \<Longrightarrow> i < 9223372036854775808 \<Longrightarrow>
     sint (word_of_int i :: int64) = i"
  by (simp add: sint_sbintrunc' signed_take_bit_int_eq_self)

lemma nth_in_window:
  assumes "k < length xs"
  shows "xs ! k \<in> set (take 15 (drop (k div 15 * 15) xs))"
proof -
  have m: "k div 15 * 15 + k mod 15 = k" by simp
  have "take 15 (drop (k div 15 * 15) xs) ! (k mod 15) = xs ! k"
    using assms m by (simp add: nth_take nth_drop)
  moreover have "k mod 15 + k div 15 * 15 < length xs" using assms m by linarith
  then have "k mod 15 < length (take 15 (drop (k div 15 * 15) xs))" by (simp add: less_diff_conv)
  ultimately show ?thesis by (metis nth_mem)
qed

end
