(* ===== verification/Types.thy ===== *)
theory Types
  imports Prelude
begin

text \<open>
  The request and response shapes of \<open>src/handler/commom/types.go\<close>, its status
  labels, and the two list queries \<open>GetSQLOrderList\<close> and \<open>GetSQLQueryList\<close> that
  render every worklist page. The paging helper \<open>lib.Paging\<close> and the gorm query
  chain are not under \<open>src/\<close>: they are modelled from the repository contract of the
  specification (\<open>Query(filter, orderBy, offset, limit) \<rightarrow> (rows, totalCount)\<close>) with
  Go's 64-bit \<open>int\<close> arithmetic and gorm's treatment of a negative offset or limit
  (the clause is left out).
\<close>

section \<open>Request and response shapes\<close>

text \<open>The columns \<open>GetSQLOrderList\<close> selects (\<open>QueryField\<close>).\<close>

definition QueryField :: "string list" where
  "QueryField = [''work_id'', ''username'', ''text'', ''backup'', ''date'', ''real_name'',
     ''executor'', ''status'', ''type'', ''delay'', ''source'', ''id_c'', ''data_base'',
     ''table'', ''execute_time'', ''assigned'', ''current_step'', ''relevant'']"

record ExecuteStr =
  es_WorkId :: string
  es_Perform :: string
  es_Page :: int64
  es_Flag :: int64
  es_Text :: string
  es_Tp :: string

record Search =
  s_Picker :: "string list"
  s_Valve :: bool
  s_Text :: string
  s_Explain :: string
  s_WorkId :: string
  s_Type :: int64
  s_Status :: int64
  s_IDC :: string
  s_Source :: string
  s_Username :: string
  s_Dept :: string

text \<open>The zero value \<open>Search{}\<close>, which the JSON binding leaves when a request
  sends no \<open>find\<close> object.\<close>

definition Search_zero :: Search where
  "Search_zero = \<lparr>s_Picker = [], s_Valve = False, s_Text = [], s_Explain = [], s_WorkId = [],
     s_Type = 0, s_Status = 0, s_IDC = [], s_Source = [], s_Username = [], s_Dept = []\<rparr>"

record PageInfo =
  pi_Page :: int64
  pi_Find :: Search
  pi_Tp :: string

text \<open>\<open>interface{}\<close> fields are type parameters.\<close>

record ('d, 's, 'q, 'a) CommonList =
  cl_Page :: int64
  cl_Data :: 'd
  cl_IDC :: "string list"
  cl_Source :: 's
  cl_Query :: 'q
  cl_Auditor :: 'a
  cl_Multi :: bool

record 'r SQLOrder =
  so_List :: "'r list"
  so_Multi :: bool
  so_Count :: nat

record 'r SQLQuery =
  sq_List :: "'r list"
  sq_Count :: nat

record SQLTest =
  st_Source :: string
  st_SQL :: string
  st_Database :: string
  st_IsDML :: bool
  st_WorkId :: string

record QueryOrder =
  qo_IDC :: string
  qo_Source :: string
  qo_Export :: "64 word"
  qo_Assigned :: string
  qo_Text :: string
  qo_WorkId :: string
  qo_Tp :: string

section \<open>Status labels\<close>

text \<open>
  The constants as the file holds them: every non-ASCII character of the original
  labels has become \<open>?\<close>, one per byte. Only the lengths and a trailing \<open>!\<close> are left
  to tell them apart.
\<close>

definition qs :: "nat \<Rightarrow> string" where
  "qs n = replicate n (CHR ''?'')"

definition ORDER_IS_CREATE :: string where "ORDER_IS_CREATE = qs 15 @ ''!''"
definition ORDER_IS_DUP :: string where "ORDER_IS_DUP = qs 24 @ ''!''"
definition ORDER_IS_EDIT :: string where "ORDER_IS_EDIT = qs 18"
definition ORDER_IS_DELETE :: string where "ORDER_IS_DELETE = qs 18"
definition ORDER_IS_CLEAR :: string where "ORDER_IS_CLEAR = qs 15"
definition ORDER_IS_AGREE :: string where "ORDER_IS_AGREE = qs 15"
definition ORDER_IS_REJECT :: string where "ORDER_IS_REJECT = qs 15"
definition ORDER_IS_ALL_END :: string where "ORDER_IS_ALL_END = qs 21"
definition ORDER_IS_END :: string where "ORDER_IS_END = qs 15"
definition ORDER_IS_ALL_CANCEL :: string where "ORDER_IS_ALL_CANCEL = qs 21"
definition DATA_IS_DELETE :: string where "DATA_IS_DELETE = qs 18"
definition DATA_IS_EDIT :: string where "DATA_IS_EDIT = qs 18"
definition DATA_IS_UPDATED :: string where "DATA_IS_UPDATED = qs 15"

lemmas status_label_defs = qs_def ORDER_IS_CREATE_def ORDER_IS_DUP_def ORDER_IS_EDIT_def
  ORDER_IS_DELETE_def ORDER_IS_CLEAR_def ORDER_IS_AGREE_def ORDER_IS_REJECT_def
  ORDER_IS_ALL_END_def ORDER_IS_END_def ORDER_IS_ALL_CANCEL_def DATA_IS_DELETE_def
  DATA_IS_EDIT_def DATA_IS_UPDATED_def

section \<open>Paging and the list query\<close>

text \<open>\<open>lib.Paging(page, per)\<close>: the offset \<open>page * per - per\<close> and the limit
  \<open>per\<close>, computed in Go \<open>int\<close>.\<close>

definition Paging :: "int64 \<Rightarrow> int64 \<Rightarrow> int64 \<times> int64" where
  "Paging page per = (page * per - per, per)"

text \<open>gorm emits \<open>OFFSET n\<close> and \<open>LIMIT n\<close> only for \<open>n \<ge> 0\<close>.\<close>

definition sql_offset :: "int64 \<Rightarrow> 'r list \<Rightarrow> 'r list" where
  "sql_offset off rows = (if 0 \<le> sint off then drop (nat (sint off)) rows else rows)"

definition sql_limit :: "int64 \<Rightarrow> 'r list \<Rightarrow> 'r list" where
  "sql_limit lim rows = (if 0 \<le> sint lim then take (nat (sint lim)) rows else rows)"

text \<open>\<open>Scopes(scopes...)\<close>: each scope adds a \<open>WHERE\<close> condition, and the
  conditions are conjoined.\<close>

definition apply_scopes :: "'r scope list \<Rightarrow> 'r \<Rightarrow> bool" where
  "apply_scopes scopes r = list_all (\<lambda>s. s r) scopes"

text \<open>\<open>Order("id desc")\<close>, over rows whose key \<open>id\<close> is given.\<close>

definition order_id_desc :: "('r \<Rightarrow> nat) \<Rightarrow> 'r list \<Rightarrow> 'r list" where
  "order_id_desc key rows = sort_key (\<lambda>r. - int (key r)) rows"

text \<open>The repository's \<open>Query\<close>: the count is taken over the scoped rows before
  ordering, offset and limit; the page is the ordered rows cut by offset and limit.\<close>

definition Query :: "'r scope list \<Rightarrow> ('r \<Rightarrow> nat) \<Rightarrow> int64 \<Rightarrow> int64 \<Rightarrow> 'r list \<Rightarrow> 'r list \<times> nat" where
  "Query scopes key off lim tbl =
     (let rows = filter (apply_scopes scopes) tbl
      in (sql_limit lim (sql_offset off (order_id_desc key rows)), length rows))"

text \<open>
  \<open>GetSQLOrderList\<close>: \<open>multi\<close> is the global flag \<open>model.GloOther.Multi\<close>,
  \<open>tbl\<close> the \<open>core_sql_orders\<close> table and \<open>key\<close> its \<open>id\<close> column.
\<close>

definition GetSQLOrderList ::
  "bool \<Rightarrow> ('r \<Rightarrow> nat) \<Rightarrow> 'r list \<Rightarrow> PageInfo \<Rightarrow> 'r scope list \<Rightarrow> 'r SQLOrder" where
  "GetSQLOrderList multi key tbl p scopes =
     (let (start, offset) = Paging (pi_Page p) 15;
          (rows, cnt) = Query scopes key start offset tbl
      in \<lparr>so_List = rows, so_Multi = multi, so_Count = cnt\<rparr>)"

definition GetSQLQueryList ::
  "('r \<Rightarrow> nat) \<Rightarrow> 'r list \<Rightarrow> PageInfo \<Rightarrow> 'r scope list \<Rightarrow> 'r SQLQuery" where
  "GetSQLQueryList key tbl p scopes =
     (let (start, offset) = Paging (pi_Page p) 15;
          (rows, cnt) = Query scopes key start offset tbl
      in \<lparr>sq_List = rows, sq_Count = cnt\<rparr>)"

text \<open>The rows a query matches, in the order every page is cut from.\<close>

definition matching :: "'r scope list \<Rightarrow> ('r \<Rightarrow> nat) \<Rightarrow> 'r list \<Rightarrow> 'r list" where
  "matching scopes key tbl = order_id_desc key (filter (apply_scopes scopes) tbl)"

text \<open>The largest page whose offset \<open>page * 15 - 15\<close> still fits in a Go \<open>int\<close>:
  \<open>(2 ^ 63 - 1) div 15\<close>.\<close>

definition page_bound :: int where
  "page_bound = 614891469123651720"


section \<open>Facts about the list query\<close>

lemma sql_limit_nonneg [page_simps]:
  "0 \<le> sint lim \<Longrightarrow> sql_limit lim rows = take (nat (sint lim)) rows"
  by (simp add: sql_limit_def)

lemma sql_offset_nonneg [page_simps]:
  "0 \<le> sint off \<Longrightarrow> sql_offset off rows = drop (nat (sint off)) rows"
  by (simp add: sql_offset_def)

lemma sql_offset_neg [page_simps]:
  "sint off < 0 \<Longrightarrow> sql_offset off rows = rows"
  by (simp add: sql_offset_def)

text \<open>Both list queries are one query: a window of the matching rows and their count.\<close>

lemma GetSQLOrderList_eq:
  "GetSQLOrderList multi key tbl p scopes =
     \<lparr>so_List = take 15 (sql_offset (fst (Paging (pi_Page p) 15)) (matching scopes key tbl)),
      so_Multi = multi, so_Count = length (filter (apply_scopes scopes) tbl)\<rparr>"
  by (simp add: GetSQLOrderList_def Query_def matching_def Paging_def page_simps Let_def)

lemma GetSQLQueryList_eq:
  "GetSQLQueryList key tbl p scopes =
     \<lparr>sq_List = so_List (GetSQLOrderList multi key tbl p scopes),
      sq_Count = so_Count (GetSQLOrderList multi key tbl p scopes)\<rparr>"
  by (simp add: GetSQLQueryList_def GetSQLOrderList_def Query_def Paging_def Let_def)

lemma set_matching [simp]:
  "set (matching scopes key tbl) = {r \<in> set tbl. apply_scopes scopes r}"
  by (simp add: matching_def order_id_desc_def)

lemma length_matching [simp]:
  "length (matching scopes key tbl) = length (filter (apply_scopes scopes) tbl)"
  by (simp add: matching_def order_id_desc_def)

lemma matching_sorted_desc:
  "sorted_wrt (\<lambda>a b. key b \<le> key a) (matching scopes key tbl)"
proof -
  have "sorted (map (\<lambda>r. - int (key r)) (matching scopes key tbl))"
    by (simp add: matching_def order_id_desc_def)
  then show ?thesis by (simp add: sorted_map)
qed

subsection \<open>The offset in 64-bit arithmetic\<close>

lemma Paging_15_word: "(p :: int64) * 15 - 15 = word_of_int ((sint p - 1) * 15)"
  by (simp add: algebra_simps)

lemma Paging_offset_exact:
  assumes "1 \<le> sint p" "sint p \<le> page_bound"
  shows "sint (fst (Paging p 15)) = (sint p - 1) * 15"
proof -
  have lo: "- 9223372036854775808 \<le> (sint p - 1) * 15"
    using assms by (simp add: left_diff_distrib)
  have hi: "(sint p - 1) * 15 < 9223372036854775808"
    using assms by (simp add: left_diff_distrib page_bound_def)
  show ?thesis
    unfolding Paging_def fst_conv Paging_15_word by (rule sint_int64_of_int [OF lo hi])
qed

lemma Paging_offset_low:
  assumes "- page_bound < sint p" "sint p < 1"
  shows "sint (fst (Paging p 15)) < 0"
proof -
  have lo: "- 9223372036854775808 \<le> (sint p - 1) * 15"
    using assms by (simp add: left_diff_distrib page_bound_def)
  have hi: "(sint p - 1) * 15 < 9223372036854775808"
    using assms by (simp add: left_diff_distrib)
  have "sint (fst (Paging p 15)) = (sint p - 1) * 15"
    unfolding Paging_def fst_conv Paging_15_word by (rule sint_int64_of_int [OF lo hi])
  with assms(2) show ?thesis by simp
qed

lemma sint_page_of_nat:
  "n \<le> nat page_bound \<Longrightarrow> sint (of_nat n :: int64) = int n"
proof -
  assume "n \<le> nat page_bound"
  then have "- 9223372036854775808 \<le> int n" "int n < 9223372036854775808"
    by (simp_all add: page_bound_def)
  then have "sint (word_of_int (int n) :: int64) = int n" by (rule sint_int64_of_int)
  then show ?thesis by simp
qed

lemma GetSQLOrderList_nth_page:
  assumes "i < nat page_bound"
  shows "so_List (GetSQLOrderList multi key tbl (p\<lparr>pi_Page := of_nat (Suc i)\<rparr>) scopes) =
           take 15 (drop (i * 15) (matching scopes key tbl))"
proof -
  have s: "sint (of_nat (Suc i) :: int64) = int (Suc i)"
    by (rule sint_page_of_nat) (use assms in simp)
  have "sint (fst (Paging (of_nat (Suc i)) 15)) = int i * 15"
    using Paging_offset_exact [of "of_nat (Suc i)"] assms s by (simp add: page_bound_def)
  then show ?thesis by (simp add: GetSQLOrderList_eq page_simps nat_mult_distrib)
qed

lemma set_take_sql_offset: "set (take n (sql_offset off rows)) \<subseteq> set rows"
  unfolding sql_offset_def by (auto dest: in_set_takeD in_set_dropD)

lemma sorted_take_sql_offset:
  "sorted_wrt R rows \<Longrightarrow> sorted_wrt R (take n (sql_offset off rows))"
  by (simp add: sql_offset_def sorted_wrt_drop sorted_wrt_take)

section \<open>Properties of the worklist query\<close>

text \<open>C5. The total count of a worklist is the number of rows the scopes admit, the
  same on every page: it is counted before the offset and the limit cut the page.\<close>

theorem GetSQLOrderList_count:
  "so_Count (GetSQLOrderList multi key tbl p scopes) = length (filter (apply_scopes scopes) tbl) \<and>
   so_Count (GetSQLOrderList multi key tbl p scopes) = so_Count (GetSQLOrderList multi key tbl q scopes)"
  by (simp add: GetSQLOrderList_eq)

text \<open>C6. Page \<open>n\<close>, for \<open>1 \<le> n\<close> up to the largest page whose offset fits in a Go
  \<open>int\<close>, holds the rows \<open>15 (n - 1) + 1\<close> to \<open>15 n\<close> of the matching rows in
  descending \<open>id\<close> order; with 20 matching rows page 2 holds the last 5.\<close>

theorem GetSQLOrderList_page:
  assumes "1 \<le> sint (pi_Page p)" "sint (pi_Page p) \<le> page_bound"
  shows "so_List (GetSQLOrderList multi key tbl p scopes) =
           take 15 (drop (nat ((sint (pi_Page p) - 1) * 15)) (matching scopes key tbl))"
  using Paging_offset_exact [OF assms] assms(1)
  by (simp add: GetSQLOrderList_eq page_simps)

theorem GetSQLOrderList_page_witness:
  "so_List (GetSQLOrderList True id [1..<21] \<lparr>pi_Page = 2, pi_Find = Search_zero, pi_Tp = ''''\<rparr> [])
     = [5, 4, 3, 2, 1 :: nat]"
proof -
  have "so_List (GetSQLOrderList True id [1..<21] \<lparr>pi_Page = 2, pi_Find = Search_zero, pi_Tp = ''''\<rparr> [])
      = take 15 (drop 15 (matching [] id [1..<21 :: nat]))"
    using GetSQLOrderList_page [of "\<lparr>pi_Page = 2, pi_Find = Search_zero, pi_Tp = ''''\<rparr>"]
    by (simp add: page_bound_def)
  then show ?thesis
    by (simp add: matching_def order_id_desc_def apply_scopes_def upt_rec)
qed

text \<open>C17. Pages \<open>1 .. k\<close> read one after the other return every matching row exactly
  once, in descending \<open>id\<close> order, once \<open>15 k\<close> reaches the count.\<close>

theorem GetSQLOrderList_pages_cover:
  assumes "k \<le> nat page_bound" "length (filter (apply_scopes scopes) tbl) \<le> k * 15"
  shows "concat (map (\<lambda>i. so_List (GetSQLOrderList multi key tbl (p\<lparr>pi_Page := of_nat (Suc i)\<rparr>) scopes))
            [0..<k]) = matching scopes key tbl"
proof -
  have "map (\<lambda>i. so_List (GetSQLOrderList multi key tbl (p\<lparr>pi_Page := of_nat (Suc i)\<rparr>) scopes)) [0..<k]
      = map (\<lambda>i. take 15 (drop (i * 15) (matching scopes key tbl))) [0..<k]"
    (is "map ?page _ = map ?window _")
  proof (rule map_cong [OF refl])
    fix i assume "i \<in> set [0..<k]"
    then have "i < nat page_bound" using assms(1) by simp
    then show "so_List (GetSQLOrderList multi key tbl (p\<lparr>pi_Page := of_nat (Suc i)\<rparr>) scopes)
        = take 15 (drop (i * 15) (matching scopes key tbl))"
      by (rule GetSQLOrderList_nth_page)
  qed
  then have "concat (map ?page [0..<k]) = concat (map ?window [0..<k])"
    by (rule arg_cong)
  also have "\<dots> = take (k * 15) (matching scopes key tbl)"
    by (rule concat_windows)
  also have "\<dots> = matching scopes key tbl"
    using assms(2) by simp
  finally show ?thesis .
qed

theorem GetSQLOrderList_pages_cover_witness:
  "concat (map (\<lambda>i. so_List (GetSQLOrderList False id [1..<21]
      (\<lparr>pi_Page = 0, pi_Find = Search_zero, pi_Tp = ''''\<rparr>\<lparr>pi_Page := of_nat (Suc i)\<rparr>) [\<lambda>r. odd r])) [0..<1])
     = matching [\<lambda>r. odd r] id [1..<21 :: nat]"
  by (rule GetSQLOrderList_pages_cover)
     (simp_all add: page_bound_def apply_scopes_def upt_rec)

text \<open>C16. Every row of a page is a row of the table that all scopes admit, and the page
  is in descending \<open>id\<close> order: a scope is never bypassed by the paging.\<close>

theorem GetSQLOrderList_rows_scoped:
  "list_all (\<lambda>r. r \<in> set tbl \<and> apply_scopes scopes r) (so_List (GetSQLOrderList multi key tbl p scopes)) \<and>
   sorted_wrt (\<lambda>a b. key b \<le> key a) (so_List (GetSQLOrderList multi key tbl p scopes))"
proof -
  have "set (take 15 (sql_offset off (matching scopes key tbl))) \<subseteq> set (matching scopes key tbl)"
    for off :: int64
    by (rule set_take_sql_offset)
  moreover have "sorted_wrt (\<lambda>a b. key b \<le> key a) (take 15 (sql_offset off (matching scopes key tbl)))"
    for off :: int64
    by (rule sorted_take_sql_offset [OF matching_sorted_desc])
  ultimately show ?thesis by (auto simp: GetSQLOrderList_eq list_all_iff)
qed

theorem GetSQLOrderList_rows_scoped_witness:
  "list_all (\<lambda>r. r \<in> set [1..<5] \<and> apply_scopes [even] r)
     (so_List (GetSQLOrderList True id [1..<5] \<lparr>pi_Page = 1, pi_Find = Search_zero, pi_Tp = ''''\<rparr> [even])) \<and>
   so_List (GetSQLOrderList True id [1..<5] \<lparr>pi_Page = 1, pi_Find = Search_zero, pi_Tp = ''''\<rparr> [even]) = [4, 2 :: nat]"
proof -
  have "so_List (GetSQLOrderList True id [1..<5] \<lparr>pi_Page = 1, pi_Find = Search_zero, pi_Tp = ''''\<rparr> [even]) = [4, 2 :: nat]"
    by (simp add: GetSQLOrderList_eq Paging_def sql_offset_def matching_def order_id_desc_def
        apply_scopes_def upt_rec)
  then show ?thesis
    using GetSQLOrderList_rows_scoped [where multi = True and key = id and tbl = "[1..<5]"
        and p = "\<lparr>pi_Page = 1, pi_Find = Search_zero, pi_Tp = ''''\<rparr>" and scopes = "[even]"]

    by simp
qed

text \<open>C34. A page number of 0 or below, as far down as the offset does not wrap, gives
  the first page again, not an empty page or an error: the offset \<open>15 (n - 1)\<close> is
  negative and gorm drops the \<open>OFFSET\<close> clause.\<close>

theorem GetSQLOrderList_low_page:
  assumes "- page_bound < sint (pi_Page p)" "sint (pi_Page p) < 1"
  shows "so_List (GetSQLOrderList multi key tbl p scopes) = take 15 (matching scopes key tbl)"
  using Paging_offset_low [OF assms]
  by (simp add: GetSQLOrderList_eq page_simps)

theorem GetSQLOrderList_low_page_witness:
  "so_List (GetSQLOrderList True id [1..<30] \<lparr>pi_Page = 0, pi_Find = Search_zero, pi_Tp = ''''\<rparr> [])
     = take 15 (matching [] id [1..<30 :: nat])"
  by (rule GetSQLOrderList_low_page) (simp_all add: page_bound_def)

end
