(* ===== verification/Login.thy ===== *)
theory Login
  imports Prelude
begin

text \<open>
  The handlers of \<open>src/handler/login/login.go\<close>: LDAP login, local login, GitLab
  OAuth login and callback, and self registration. Their state is the account table
  \<open>core_accounts\<close> and the permission table \<open>core_graineds\<close> (\<open>AccountDB\<close>); a handler
  returns its HTTP reply and the tables after the rows it created. Everything outside
  the file (request binding, the LDAP bind, Django password hashing, JWT signing, the
  OAuth exchange, the GitLab user API, the database collation) is a field of the
  \<open>Services\<close> record, so every lemma holds for any behaviour of those services.
\<close>

section \<open>Tables and requests\<close>

text \<open>\<open>model.CoreAccount\<close> and \<open>model.CoreGrained\<close>, as far as these handlers write
  them; \<open>cg_Group\<close> is the JSON text of the permission group list.\<close>

record CoreAccount =
  ca_Username :: string
  ca_RealName :: string
  ca_Password :: string
  ca_Rule :: string
  ca_Department :: string
  ca_Email :: string

record CoreGrained =
  cg_Username :: string
  cg_Group :: string

text \<open>Rows in insertion order: \<open>First\<close> returns the matching row of least primary key.\<close>

record AccountDB =
  accounts :: "CoreAccount list"
  grained :: "CoreGrained list"

text \<open>The zero value \<open>model.CoreAccount{}\<close>.\<close>

definition CoreAccount_zero :: CoreAccount where
  "CoreAccount_zero = \<lparr>ca_Username = [], ca_RealName = [], ca_Password = [], ca_Rule = [],
     ca_Department = [], ca_Email = []\<rparr>"

record loginForm =
  lf_Username :: string
  lf_Password :: string

record Config =
  cfg_State :: string
  cfg_Code :: string

record GitlabUser =
  gu_Username :: string
  gu_Name :: string
  gu_State :: string
  gu_Email :: string

definition oauthStateString :: string where "oauthStateString = ''state''"
definition unauth :: string where "unauth = []"

text \<open>\<open>oauth2.Config\<close> as \<open>Setup\<close> fills it from \<open>model.C.Gitlab\<close>.\<close>

record OAuthConfig =
  oc_ClientID :: string
  oc_ClientSecret :: string
  oc_RedirectURL :: string
  oc_AuthURL :: string
  oc_TokenURL :: string

record GitlabConf =
  gc_ClientID :: string
  gc_ClientSecret :: string
  gc_RedirectURL :: string
  gc_AuthURL :: string
  gc_TokenURL :: string

section \<open>Replies\<close>

text \<open>
  The JSON bodies the handlers send (\<open>commom.ERR_*\<close> and the payload builders). A
  payload map is encoded by \<open>encoding/json\<close> with its keys sorted, so it is the
  association list in key order. \<open>ERR_COMMON_MESSAGE\<close> carries the text
  \<open>err.Error()\<close> of its error argument. \<open>Silent\<close> is a handler that returns nil
  without writing a body; \<open>Panic\<close> a nil-pointer dereference.
\<close>

datatype Resp =
    ERR_REQ_BIND
  | ERR_LOGIN
  | ERR_REGISTER
  | ERR_COMMON_MESSAGE string
  | SuccessPayload "(string \<times> string) list"
  | SuccessPayLoadToMessage string
  | UserUnAuth string
  | UserAuthed string

datatype Reply = JSON nat Resp | Silent | Panic

abbreviation StatusOK :: nat where "StatusOK \<equiv> 200"
abbreviation StatusMovedPermanently :: nat where "StatusMovedPermanently \<equiv> 301"
abbreviation StatusInternalServerError :: nat where "StatusInternalServerError \<equiv> 500"

text \<open>\<open>c.JSON(code, commom.ERR_COMMON_MESSAGE(err))\<close>: the body holds
  \<open>err.Error()\<close>, so a nil error (\<open>None\<close>) is a method call on a nil interface,
  which panics before anything is written.\<close>

definition reply_common :: "nat \<Rightarrow> string option \<Rightarrow> Reply" where
  "reply_common code err = (case err of None \<Rightarrow> Panic | Some e \<Rightarrow> JSON code (ERR_COMMON_MESSAGE e))"

text \<open>The error \<open>lib.ErrExist\<close> that \<open>gitlabUserRegister\<close> returns for a known user.\<close>

datatype RegErr = ErrExist

section \<open>External services\<close>

text \<open>
  \<^item> \<open>ldap_content u p\<close>: \<open>lib.LdapContent(&model.GloLdap, u, p, false)\<close>, an error
    (\<open>Inl\<close>) or whether the bind succeeded;
  \<^item> \<open>django_check a p\<close>: \<open>lib.DjangoCheckPassword(&a, p)\<close>;
  \<^item> \<open>jwt_auth u r\<close>: \<open>lib.JwtAuth(u, r)\<close>, an error or the signed token;
  \<^item> \<open>django_encrypt p s\<close>, \<open>gen_workid\<close>, \<open>get_random\<close>: the password hash, the
    work-id generator and the random salt;
  \<^item> \<open>register_open\<close>: \<open>model.GloOther.Register\<close>;
  \<^item> \<open>collate\<close>: the key the database compares \<open>username = ?\<close> on (MySQL's default
    collation folds case and trailing spaces);
  \<^item> \<open>auth_code_url\<close> and \<open>oauth_exchange\<close>: \<open>conf.AuthCodeURL\<close> and
    \<open>conf.Exchange\<close> (the access token or an error);
  \<^item> \<open>http_get\<close>: the GET of \<open>getGitlabUserInfo\<close>, the body or the error of
    \<open>NewRequest\<close>, \<open>Do\<close> or \<open>ReadAll\<close>; \<open>json_user\<close>: \<open>json.Unmarshal\<close> into a
    \<open>*GitlabUser\<close> (an error, or the pointer, \<open>None\<close> for nil);
  \<^item> \<open>glo_gitlab\<close>, \<open>glo_base_domain\<close>, \<open>gitlab_conf\<close>: \<open>model.GloGitlab\<close>,
    \<open>model.GloBaseDomin\<close> and \<open>model.C.Gitlab\<close>;
  \<^item> \<open>err_exist_text\<close>: the text of \<open>lib.ErrExist\<close>.
\<close>

record Services =
  ldap_content :: "string \<Rightarrow> string \<Rightarrow> string + bool"
  django_check :: "CoreAccount \<Rightarrow> string \<Rightarrow> bool"
  jwt_auth :: "string \<Rightarrow> string \<Rightarrow> string + string"
  django_encrypt :: "string \<Rightarrow> string \<Rightarrow> string"
  gen_workid :: string
  get_random :: string
  register_open :: bool
  collate :: "string \<Rightarrow> string"
  auth_code_url :: "OAuthConfig \<Rightarrow> string \<Rightarrow> string"
  oauth_exchange :: "OAuthConfig \<Rightarrow> string \<Rightarrow> string + string"
  http_get :: "string \<Rightarrow> string + string"
  json_user :: "string \<Rightarrow> string + GitlabUser option"
  glo_gitlab :: string
  glo_base_domain :: string
  gitlab_conf :: GitlabConf
  err_exist_text :: string

section \<open>Database access\<close>

text \<open>\<open>model.DB().Where("username = ?", name).First(&row)\<close>.\<close>

definition First :: "Services \<Rightarrow> AccountDB \<Rightarrow> string \<Rightarrow> CoreAccount option" where
  "First env db name = find (\<lambda>a. collate env (ca_Username a) = collate env name) (accounts db)"

text \<open>\<open>model.DB().Create(&row)\<close> for the two tables.\<close>

definition create_account :: "CoreAccount \<Rightarrow> AccountDB \<Rightarrow> AccountDB" where
  "create_account a db = db\<lparr>accounts := accounts db @ [a]\<rparr>"

definition create_grained :: "CoreGrained \<Rightarrow> AccountDB \<Rightarrow> AccountDB" where
  "create_grained g db = db\<lparr>grained := grained db @ [g]\<rparr>"

text \<open>\<open>json.Marshal([]string{})\<close>.\<close>

definition empty_group_json :: string where "empty_group_json = ''[]''"

text \<open>A new account together with its empty permission row, as every handler that
  creates an account writes them.\<close>

definition create_user :: "CoreAccount \<Rightarrow> AccountDB \<Rightarrow> AccountDB" where
  "create_user a db =
     create_grained \<lparr>cg_Username = ca_Username a, cg_Group = empty_group_json\<rparr> (create_account a db)"

section \<open>String literals\<close>

text \<open>The UTF-8 bytes of the Chinese literals of the file.\<close>

definition utf8 :: "nat list \<Rightarrow> string" where
  "utf8 bs = map char_of bs"

definition reset_real_name :: string where
  "reset_real_name = utf8 [232, 175, 183, 233, 135, 141, 231, 189, 174, 228, 189, 160, 231, 154,
     132, 231, 156, 159, 229, 174, 158, 229, 167, 147, 229, 144, 141]"

definition user_exists_msg :: string where
  "user_exists_msg = utf8 [231, 148, 168, 230, 136, 183, 229, 183, 178, 229, 173, 152, 229, 156,
     168, 232, 175, 183, 233, 135, 141, 230, 150, 176, 230, 179, 168, 229, 134, 140, 239, 188, 129]"

definition register_ok_msg :: string where
  "register_ok_msg = utf8 [230, 179, 168, 229, 134, 140, 230, 136, 144, 229, 138, 159, 239, 188, 129]"

section \<open>Handlers\<close>

text \<open>The payload of a successful login, keys in the order \<open>encoding/json\<close> writes
  them.\<close>

definition login_payload :: "string \<Rightarrow> string \<Rightarrow> string \<Rightarrow> (string \<times> string) list" where
  "login_payload token rule real_name =
     [(''permissions'', rule), (''real_name'', real_name), (''token'', token)]"

text \<open>
  \<open>UserLdapLogin\<close> (lines 52--88). On a first login the account is created, but
  \<open>account\<close> is still the zero value \<open>First\<close> left when it found nothing, and the token
  and payload are built from it.
\<close>

definition UserLdapLogin :: "Services \<Rightarrow> AccountDB \<Rightarrow> loginForm option \<Rightarrow> Reply \<times> AccountDB" where
  "UserLdapLogin env db req =
     (case req of
        None \<Rightarrow> (JSON StatusOK ERR_REQ_BIND, db)
      | Some u \<Rightarrow>
          (case ldap_content env (lf_Username u) (lf_Password u) of
             Inl err \<Rightarrow> (reply_common StatusOK (Some err), db)
           | Inr isOk \<Rightarrow>
               (if isOk then
                  (let (account, db') =
                     (case First env db (lf_Username u) of
                        Some a \<Rightarrow> (a, db)
                      | None \<Rightarrow> (CoreAccount_zero,
                          create_user
                            \<lparr>ca_Username = lf_Username u, ca_RealName = reset_real_name,
                             ca_Password = django_encrypt env (gen_workid env) (get_random env),
                             ca_Rule = ''guest'', ca_Department = ''all'', ca_Email = []\<rparr> db))
                   in case jwt_auth env (lf_Username u) (ca_Rule account) of
                        Inl _ \<Rightarrow> (Silent, db')
                      | Inr token \<Rightarrow>
                          (JSON StatusOK (SuccessPayload
                             (login_payload token (ca_Rule account) (ca_RealName account))), db'))
                else (JSON StatusOK ERR_LOGIN, db))))"

text \<open>\<open>Setup\<close> (lines 107--117).\<close>

definition Setup :: "Services \<Rightarrow> OAuthConfig" where
  "Setup env =
     \<lparr>oc_ClientID = gc_ClientID (gitlab_conf env), oc_ClientSecret = gc_ClientSecret (gitlab_conf env),
      oc_RedirectURL = gc_RedirectURL (gitlab_conf env), oc_AuthURL = gc_AuthURL (gitlab_conf env),
      oc_TokenURL = gc_TokenURL (gitlab_conf env)\<rparr>"

text \<open>\<open>UserGitlabLogin\<close> (lines 90--105): the request's \<open>x-token\<close> header decides.\<close>

definition UserGitlabLogin :: "Services \<Rightarrow> string \<Rightarrow> Reply" where
  "UserGitlabLogin env token =
     (let conf = Setup env
      in if token = unauth then JSON StatusOK (UserUnAuth (auth_code_url env conf ''state''))
         else JSON StatusMovedPermanently (UserAuthed (glo_base_domain env)))"

text \<open>\<open>getGitlabUserInfo\<close> (lines 254--288): the user pointer and the error.\<close>

definition gitlab_user_url :: "Services \<Rightarrow> string \<Rightarrow> string" where
  "gitlab_user_url env t = glo_gitlab env @ ''/api/v4/user?access_token='' @ t"

definition getGitlabUserInfo :: "Services \<Rightarrow> string \<Rightarrow> GitlabUser option \<times> string option" where
  "getGitlabUserInfo env t =
     (case http_get env (gitlab_user_url env t) of
        Inl e \<Rightarrow> (None, Some e)
      | Inr body \<Rightarrow> (case json_user env body of Inl e \<Rightarrow> (None, Some e) | Inr u \<Rightarrow> (u, None)))"

text \<open>
  \<open>gitlabUserRegister\<close> (lines 231--252): \<open>None\<close> is the nil dereference of
  \<open>user.Username\<close>. A new user is returned as the partly filled \<open>u\<close>, whose
  \<open>Rule\<close> is empty, not as the row that was created.
\<close>

definition gitlabUserRegister ::
  "Services \<Rightarrow> AccountDB \<Rightarrow> GitlabUser option \<Rightarrow> (CoreAccount \<times> RegErr option \<times> AccountDB) option" where
  "gitlabUserRegister env db user =
     (case user of
        None \<Rightarrow> None
      | Some gu \<Rightarrow>
          (let u = CoreAccount_zero\<lparr>ca_Username := gu_Username gu, ca_RealName := gu_Name gu,
                                    ca_Email := gu_Email gu\<rparr>
           in case First env db (ca_Username u) of
                Some unique \<Rightarrow> Some (unique, Some ErrExist, db)
              | None \<Rightarrow> Some (u, None,
                  create_user \<lparr>ca_Username = ca_Username u, ca_RealName = ca_RealName u,
                    ca_Password = [], ca_Rule = ''guest'', ca_Department = [],
                    ca_Email = ca_Email u\<rparr> db)))"

text \<open>The payload of the OAuth callback, keys sorted.\<close>

definition callback_payload ::
  "string \<Rightarrow> string \<Rightarrow> string \<Rightarrow> string \<Rightarrow> string \<Rightarrow> (string \<times> string) list" where
  "callback_payload token real_name user permissions rule =
     [(''permissions'', permissions), (''real_name'', real_name), (''rule'', rule),
      (''token'', token), (''user'', user)]"

text \<open>
  \<open>HandleCallback\<close> (lines 119--170). The error of \<open>getGitlabUserInfo\<close> is dropped;
  on a token error the reply carries \<open>err\<close>, the error of \<open>gitlabUserRegister\<close>.
\<close>

definition HandleCallback ::
  "Services \<Rightarrow> AccountDB \<Rightarrow> Config option \<Rightarrow> Reply \<times> AccountDB" where
  "HandleCallback env db req =
     (let conf = Setup env
      in case req of
           None \<Rightarrow> (JSON StatusOK ERR_REQ_BIND, db)
         | Some g \<Rightarrow>
             (if cfg_State g \<noteq> oauthStateString
              then (reply_common StatusInternalServerError (Some ''invalid oauth state''), db)
              else
                (case oauth_exchange env conf (cfg_Code g) of
                   Inl e \<Rightarrow> (reply_common StatusInternalServerError (Some e), db)
                 | Inr tok \<Rightarrow>
                     (let gu = fst (getGitlabUserInfo env tok)
                      in case gitlabUserRegister env db gu of
                           None \<Rightarrow> (Panic, db)
                         | Some (cu, err, db') \<Rightarrow>
                             (case jwt_auth env (ca_Username cu) (ca_Rule cu) of
                                Inl _ \<Rightarrow> (reply_common StatusInternalServerError
                                    (map_option (\<lambda>_. err_exist_text env) err), db')
                              | Inr token \<Rightarrow>
                                  (case gu of
                                     None \<Rightarrow> (Panic, db')
                                   | Some g' \<Rightarrow>
                                       (JSON StatusOK (SuccessPayload
                                          (callback_payload token (gu_Name g') (gu_Username g') (ca_Rule cu)
                                             (if err = Some ErrExist then ca_Rule cu else ''guest''))), db')))))))"

text \<open>\<open>UserGeneralLogin\<close> (lines 172--200): it writes nothing.\<close>

definition UserGeneralLogin :: "Services \<Rightarrow> AccountDB \<Rightarrow> loginForm option \<Rightarrow> Reply" where
  "UserGeneralLogin env db req =
     (case req of
        None \<Rightarrow> JSON StatusOK ERR_REQ_BIND
      | Some u \<Rightarrow>
          (case First env db (lf_Username u) of
             None \<Rightarrow> JSON StatusOK ERR_LOGIN
           | Some account \<Rightarrow>
               (if ca_Username account \<noteq> lf_Username u then JSON StatusOK ERR_LOGIN
                else if django_check env account (lf_Password u) then
                  (case jwt_auth env (lf_Username u) (ca_Rule account) of
                     Inl _ \<Rightarrow> Silent
                   | Inr token \<Rightarrow> JSON StatusOK (SuccessPayload
                       (login_payload token (ca_Rule account) (ca_RealName account))))
                else JSON StatusOK ERR_LOGIN)))"

text \<open>\<open>UserRegister\<close> (lines 202--229): the lookup selects only the \<open>username\<close>
  column, and the role of the bound request is ignored.\<close>

definition UserRegister :: "Services \<Rightarrow> AccountDB \<Rightarrow> CoreAccount option \<Rightarrow> Reply \<times> AccountDB" where
  "UserRegister env db req =
     (if register_open env then
        (case req of
           None \<Rightarrow> (JSON StatusOK ERR_REQ_BIND, db)
         | Some u \<Rightarrow>
             (let unique = (case First env db (ca_Username u) of None \<Rightarrow> [] | Some a \<Rightarrow> ca_Username a)
              in if unique \<noteq> [] then (reply_common StatusOK (Some user_exists_msg), db)
                 else (JSON StatusOK (SuccessPayLoadToMessage register_ok_msg),
                       create_user
                         \<lparr>ca_Username = ca_Username u, ca_RealName = ca_RealName u,
                          ca_Password = django_encrypt env (ca_Password u) (get_random env),
                          ca_Rule = ''guest'', ca_Department = ca_Department u,
                          ca_Email = ca_Email u\<rparr> db)))
      else (JSON StatusOK ERR_REGISTER, db))"

section \<open>The handlers as one service\<close>

text \<open>One request to any of the handlers, and a sequence of requests served one
  after the other against the same tables.\<close>

datatype LoginRequest =
    LdapLogin "loginForm option"
  | GeneralLogin "loginForm option"
  | Register "CoreAccount option"
  | GitlabLogin string
  | GitlabCallback "Config option"

fun handle :: "Services \<Rightarrow> AccountDB \<Rightarrow> LoginRequest \<Rightarrow> Reply \<times> AccountDB" where
  "handle env db (LdapLogin r) = UserLdapLogin env db r"
| "handle env db (GeneralLogin r) = (UserGeneralLogin env db r, db)"
| "handle env db (Register r) = UserRegister env db r"
| "handle env db (GitlabLogin t) = (UserGitlabLogin env t, db)"
| "handle env db (GitlabCallback r) = HandleCallback env db r"

fun serve :: "Services \<Rightarrow> AccountDB \<Rightarrow> LoginRequest list \<Rightarrow> Reply list \<times> AccountDB" where
  "serve env db [] = ([], db)"
| "serve env db (r # rs) =
     (let (rep, db') = handle env db r; (reps, db'') = serve env db' rs in (rep # reps, db''))"

section \<open>Well-formed account tables\<close>

text \<open>
  The tables are well formed when no two accounts share a username up to the
  collation, no username is empty, and every account has its permission row.
  A request keeps them so when the username it may create an account for is not
  empty; for the OAuth callback that name comes from the GitLab API.
\<close>

definition accounts_wf :: "Services \<Rightarrow> AccountDB \<Rightarrow> bool" where
  "accounts_wf env db \<longleftrightarrow>
     distinct (map (\<lambda>a. collate env (ca_Username a)) (accounts db)) \<and>
     list_all (\<lambda>a. ca_Username a \<noteq> []) (accounts db) \<and>
     set (map ca_Username (accounts db)) \<subseteq> set (map cg_Username (grained db))"

definition gitlab_names_nonempty :: "Services \<Rightarrow> bool" where
  "gitlab_names_nonempty env \<longleftrightarrow>
     (\<forall>body g. json_user env body = Inr (Some g) \<longrightarrow> gu_Username g \<noteq> [])"

fun names_nonempty :: "LoginRequest \<Rightarrow> bool" where
  "names_nonempty (LdapLogin (Some u)) = (lf_Username u \<noteq> [])"
| "names_nonempty (Register (Some u)) = (ca_Username u \<noteq> [])"
| "names_nonempty _ = True"

section \<open>A concrete service configuration\<close>

text \<open>Services that accept the LDAP password \<open>secret\<close>, compare stored passwords in
  clear, sign a token as \<open>user:rule\<close>, and whose GitLab API returns one user.\<close>

definition demo_gitlab_user :: GitlabUser where
  "demo_gitlab_user = \<lparr>gu_Username = ''carol'', gu_Name = ''Carol'', gu_State = ''active'',
     gu_Email = ''carol@example.com''\<rparr>"

definition demo_services :: Services where
  "demo_services =
     \<lparr>ldap_content = (\<lambda>u p. Inr (p = ''secret'')),
      django_check = (\<lambda>a p. ca_Password a = p),
      jwt_auth = (\<lambda>u r. Inr (u @ '':'' @ r)),
      django_encrypt = (\<lambda>p s. s @ p),
      gen_workid = ''w1'', get_random = ''salt'', register_open = True, collate = id,
      auth_code_url = (\<lambda>c st. oc_AuthURL c @ ''?state='' @ st),
      oauth_exchange = (\<lambda>c code. Inr code),
      http_get = (\<lambda>url. Inr url),
      json_user = (\<lambda>body. Inr (Some demo_gitlab_user)),
      glo_gitlab = ''https://gitlab.example.com'', glo_base_domain = ''https://yearning.example.com'',
      gitlab_conf = \<lparr>gc_ClientID = ''id'', gc_ClientSecret = ''secret'', gc_RedirectURL = ''/cb'',
        gc_AuthURL = ''/authorize'', gc_TokenURL = ''/token''\<rparr>,
      err_exist_text = ''user exists''\<rparr>"

definition empty_db :: AccountDB where
  "empty_db = \<lparr>accounts = [], grained = []\<rparr>"

definition demo_login :: loginForm where
  "demo_login = \<lparr>lf_Username = ''alice'', lf_Password = ''secret''\<rparr>"

definition demo_callback :: Config where
  "demo_callback = \<lparr>cfg_State = ''state'', cfg_Code = ''code1''\<rparr>"

section \<open>Lemmas on lookups and creation\<close>
lemma First_Some:
  "First env db n = Some a \<Longrightarrow> a \<in> set (accounts db) \<and> collate env (ca_Username a) = collate env n"
  unfolding First_def by (drule find_Some_in_set) simp

lemma First_None [store_simps]:
  "(First env db n = None) = list_all (\<lambda>a. collate env (ca_Username a) \<noteq> collate env n) (accounts db)"
  by (simp add: First_def find_None_iff' list_all_iff)

lemma accounts_create_user [store_simps]: "accounts (create_user a db) = accounts db @ [a]"
  by (simp add: create_user_def create_grained_def create_account_def)

lemma grained_create_user [store_simps]:
  "grained (create_user a db) = grained db @ [\<lparr>cg_Username = ca_Username a, cg_Group = empty_group_json\<rparr>]"
  by (simp add: create_user_def create_grained_def create_account_def)
lemma First_create_user_other:
  "First env db n = None \<Longrightarrow> collate env (ca_Username a) = collate env n \<Longrightarrow>
     First env (create_user a db) n = Some a"
  by (simp add: First_def accounts_create_user find_append)

lemma accounts_wf_create_user:
  assumes "accounts_wf env db" "First env db (ca_Username a) = None" "ca_Username a \<noteq> []"
  shows "accounts_wf env (create_user a db)"
  using assms by (auto simp: accounts_wf_def First_None list_all_iff accounts_create_user grained_create_user)

lemma UserLdapLogin_db:
  "snd (UserLdapLogin env db r) = db \<or>
   (\<exists>u. r = Some u \<and> First env db (lf_Username u) = None \<and>
     snd (UserLdapLogin env db r) = create_user
        \<lparr>ca_Username = lf_Username u, ca_RealName = reset_real_name,
         ca_Password = django_encrypt env (gen_workid env) (get_random env),
         ca_Rule = ''guest'', ca_Department = ''all'', ca_Email = []\<rparr> db)"
proof (cases r)
  case None
  then show ?thesis by (simp add: UserLdapLogin_def)
next
  case (Some u)
  show ?thesis
  proof (cases "ldap_content env (lf_Username u) (lf_Password u) = Inr True \<and>
                First env db (lf_Username u) = None")
    case True
    with Some show ?thesis by (simp add: UserLdapLogin_def split: sum.split)
  next
    case False
    with Some have "snd (UserLdapLogin env db r) = db"
      by (auto simp: UserLdapLogin_def split: option.split sum.split)
    then show ?thesis ..
  qed
qed

lemma UserRegister_db:
  "snd (UserRegister env db r) = db \<or>
   (\<exists>u. r = Some u \<and> register_open env \<and>
     (case First env db (ca_Username u) of None \<Rightarrow> [] | Some a \<Rightarrow> ca_Username a) = [] \<and>
     snd (UserRegister env db r) = create_user
        \<lparr>ca_Username = ca_Username u, ca_RealName = ca_RealName u,
         ca_Password = django_encrypt env (ca_Password u) (get_random env),
         ca_Rule = ''guest'', ca_Department = ca_Department u, ca_Email = ca_Email u\<rparr> db)"
  by (cases r) (auto simp: UserRegister_def Let_def)

lemma gitlabUserRegister_db:
  "gitlabUserRegister env db g = Some (cu, err, db') \<Longrightarrow>
   (\<exists>gu. g = Some gu \<and> First env db (gu_Username gu) = Some cu \<and> db' = db \<and> err = Some ErrExist) \<or>
   (\<exists>gu. g = Some gu \<and> First env db (gu_Username gu) = None \<and> err = None \<and>
      cu = CoreAccount_zero\<lparr>ca_Username := gu_Username gu, ca_RealName := gu_Name gu,
                                    ca_Email := gu_Email gu\<rparr> \<and>
      db' = create_user \<lparr>ca_Username = gu_Username gu, ca_RealName = gu_Name gu,
                    ca_Password = [], ca_Rule = ''guest'', ca_Department = [],
                    ca_Email = gu_Email gu\<rparr> db)"
  by (auto simp: gitlabUserRegister_def CoreAccount_zero_def Let_def split: option.splits)

lemma HandleCallback_db:
  "snd (HandleCallback env db r) = db \<or>
   (\<exists>tok cu err. gitlabUserRegister env db (fst (getGitlabUserInfo env tok)) =
      Some (cu, err, snd (HandleCallback env db r)))"
proof (cases "\<exists>c tok. r = Some c \<and> cfg_State c = oauthStateString \<and>
                    oauth_exchange env (Setup env) (cfg_Code c) = Inr tok")
  case True
  then obtain c tok where c: "r = Some c" "cfg_State c = oauthStateString"
    "oauth_exchange env (Setup env) (cfg_Code c) = Inr tok" by blast
  let ?g = "fst (getGitlabUserInfo env tok)"
  show ?thesis
  proof (cases "gitlabUserRegister env db ?g")
    case None
    with c show ?thesis by (simp add: HandleCallback_def)
  next
    case (Some res)
    then obtain cu err db' where res: "gitlabUserRegister env db ?g = Some (cu, err, db')"
      by (cases res) auto
    with c have "snd (HandleCallback env db r) = db'"
      by (simp add: HandleCallback_def split: sum.split option.split)
    with res show ?thesis by blast
  qed
next
  case False
  then have "snd (HandleCallback env db r) = db"
    by (auto simp: HandleCallback_def split: option.split sum.split)
  then show ?thesis ..
qed

lemma handle_accounts:
  "\<exists>new. accounts (snd (handle env db r)) = accounts db @ new \<and>
         list_all (\<lambda>a. ca_Rule a = ''guest'') new"
proof (cases r)
  case (LdapLogin q)
  then show ?thesis
    using UserLdapLogin_db [of env db q] by (auto simp: accounts_create_user)
next
  case (Register q)
  then show ?thesis
    using UserRegister_db [of env db q] by (auto simp: accounts_create_user)
next
  case (GitlabCallback q)
  then show ?thesis
    using HandleCallback_db [of env db q] by (auto simp: accounts_create_user dest!: gitlabUserRegister_db)
qed auto

lemma getGitlabUserInfo_user:
  "fst (getGitlabUserInfo env t) = Some gu \<Longrightarrow> \<exists>body. json_user env body = Inr (Some gu)"
  by (auto simp: getGitlabUserInfo_def split: sum.splits)

lemma accounts_wf_First_name:
  "accounts_wf env db \<Longrightarrow> First env db n = Some a \<Longrightarrow> ca_Username a \<noteq> []"
  by (auto simp: accounts_wf_def list_all_iff dest: First_Some)

lemma UserLdapLogin_wf:
  "accounts_wf env db \<Longrightarrow> names_nonempty (LdapLogin r) \<Longrightarrow> accounts_wf env (snd (UserLdapLogin env db r))"
  using UserLdapLogin_db [of env db r] by (auto intro!: accounts_wf_create_user)

lemma UserRegister_wf:
  assumes "accounts_wf env db" "names_nonempty (Register r)"
  shows "accounts_wf env (snd (UserRegister env db r))"
proof -
  have "First env db (ca_Username u) = None"
    if "(case First env db (ca_Username u) of None \<Rightarrow> [] | Some a \<Rightarrow> ca_Username a) = []" for u
    using that accounts_wf_First_name [OF assms(1)] by (cases "First env db (ca_Username u)") auto
  then show ?thesis
    using UserRegister_db [of env db r] assms by (auto intro!: accounts_wf_create_user)
qed

lemma HandleCallback_wf:
  assumes "accounts_wf env db" "gitlab_names_nonempty env"
  shows "accounts_wf env (snd (HandleCallback env db r))"
  using HandleCallback_db [of env db r]
proof
  assume "\<exists>tok cu err. gitlabUserRegister env db (fst (getGitlabUserInfo env tok)) =
      Some (cu, err, snd (HandleCallback env db r))"
  then obtain tok cu err where
    reg: "gitlabUserRegister env db (fst (getGitlabUserInfo env tok)) = Some (cu, err, snd (HandleCallback env db r))"
    by blast
  have "gu_Username gu \<noteq> []" if "fst (getGitlabUserInfo env tok) = Some gu" for gu
    using getGitlabUserInfo_user [OF that] assms(2) by (auto simp: gitlab_names_nonempty_def)
  with gitlabUserRegister_db [OF reg] assms(1) show ?thesis
    by (auto intro!: accounts_wf_create_user)
qed (simp add: assms(1))

lemma handle_wf:
  "accounts_wf env db \<Longrightarrow> gitlab_names_nonempty env \<Longrightarrow> names_nonempty r \<Longrightarrow>
     accounts_wf env (snd (handle env db r))"
  by (cases r) (simp_all add: UserLdapLogin_wf UserRegister_wf HandleCallback_wf)

lemma snd_serve_Cons:
  "snd (serve env db (r # rs)) = snd (serve env (snd (handle env db r)) rs)"
  by (simp split: prod.split)

text \<open>C7. Whatever sequence of login, registration and OAuth requests the handlers serve, the account table only grows: existing accounts are never changed or removed, and every account a handler creates has the role guest, whatever role a registration request carries.\<close>

theorem serve_accounts_grow_guest:
  "\<exists>new. accounts (snd (serve env db rs)) = accounts db @ new \<and>
         list_all (\<lambda>a. ca_Rule a = ''guest'') new"
proof (induction rs arbitrary: db)
  case Nil
  then show ?case by simp
next
  case (Cons r rs)
  obtain new1 where 1: "accounts (snd (handle env db r)) = accounts db @ new1"
    "list_all (\<lambda>a. ca_Rule a = ''guest'') new1"
    using handle_accounts by blast
  obtain new2 where 2: "accounts (snd (serve env (snd (handle env db r)) rs)) =
      accounts (snd (handle env db r)) @ new2" "list_all (\<lambda>a. ca_Rule a = ''guest'') new2"
    using Cons.IH by blast
  show ?case
    unfolding snd_serve_Cons using 1 2 by auto
qed

text \<open>C8. The handlers keep the account table well formed (usernames unique up to the collation, none empty, each with its permission row) as long as every username they may create an account for is not empty.\<close>

theorem serve_accounts_wf:
  assumes "accounts_wf env db" "gitlab_names_nonempty env" "list_all names_nonempty rs"
  shows "accounts_wf env (snd (serve env db rs))"
  using assms
proof (induction rs arbitrary: db)
  case Nil
  then show ?case by simp
next
  case (Cons r rs)
  then have "accounts_wf env (snd (handle env db r))" by (simp add: handle_wf)
  with Cons.IH Cons.prems(2,3) have "accounts_wf env (snd (serve env (snd (handle env db r)) rs))"
    by simp
  then show ?case by (simp only: snd_serve_Cons)
qed

theorem serve_accounts_wf_witness:
  "accounts_wf demo_services (snd (serve demo_services empty_db
     [Register (Some (CoreAccount_zero\<lparr>ca_Username := ''bob''\<rparr>)), LdapLogin (Some demo_login),
      GitlabCallback (Some demo_callback)])) \<and>
   map ca_Username (accounts (snd (serve demo_services empty_db
     [Register (Some (CoreAccount_zero\<lparr>ca_Username := ''bob''\<rparr>)), LdapLogin (Some demo_login),
      GitlabCallback (Some demo_callback)]))) = [''bob'', ''alice'', ''carol'']"
proof -
  have wf0: "accounts_wf demo_services empty_db" by (simp add: accounts_wf_def empty_db_def)
  have gl: "gitlab_names_nonempty demo_services"
    by (simp add: gitlab_names_nonempty_def demo_services_def demo_gitlab_user_def)
  have ne: "list_all names_nonempty [Register (Some (CoreAccount_zero\<lparr>ca_Username := ''bob''\<rparr>)),
      LdapLogin (Some demo_login), GitlabCallback (Some demo_callback)]"
    by (simp add: demo_login_def)
  show ?thesis
    using serve_accounts_wf [OF wf0 gl ne]
    by (simp add: UserRegister_def UserLdapLogin_def HandleCallback_def gitlabUserRegister_def
        getGitlabUserInfo_def First_def demo_services_def demo_login_def demo_callback_def
        demo_gitlab_user_def empty_db_def oauthStateString_def CoreAccount_zero_def store_simps Let_def)
qed

text \<open>C24. On the first LDAP login of a user the handler creates a guest account with the placeholder real name, but signs the token for an empty role and returns empty permissions and name: it reads the zero-valued account that the failed lookup left.\<close>

theorem UserLdapLogin_first_login:
  assumes "ldap_content env (lf_Username u) (lf_Password u) = Inr True"
    and "First env db (lf_Username u) = None"
    and "jwt_auth env (lf_Username u) [] = Inr tok"
  shows "UserLdapLogin env db (Some u) =
    (JSON StatusOK (SuccessPayload (login_payload tok [] [])),
     create_user \<lparr>ca_Username = lf_Username u, ca_RealName = reset_real_name,
         ca_Password = django_encrypt env (gen_workid env) (get_random env),
         ca_Rule = ''guest'', ca_Department = ''all'', ca_Email = []\<rparr> db)"
  using assms by (simp add: UserLdapLogin_def CoreAccount_zero_def)

theorem UserLdapLogin_first_login_witness:
  "UserLdapLogin demo_services empty_db (Some demo_login) =
    (JSON StatusOK (SuccessPayload (login_payload ''alice:'' [] [])),
     create_user \<lparr>ca_Username = ''alice'', ca_RealName = reset_real_name,
         ca_Password = ''saltw1'', ca_Rule = ''guest'', ca_Department = ''all'', ca_Email = []\<rparr> empty_db)"
  using UserLdapLogin_first_login [where env = demo_services and u = demo_login and db = empty_db
      and tok = "''alice:''"]
  by (simp add: demo_services_def demo_login_def empty_db_def First_def)

text \<open>C31. An LDAP login of a known user writes nothing and returns the token signed for the stored role, with the stored role and real name.\<close>

theorem UserLdapLogin_known_user:
  assumes "ldap_content env (lf_Username u) (lf_Password u) = Inr True"
    and "First env db (lf_Username u) = Some a"
    and "jwt_auth env (lf_Username u) (ca_Rule a) = Inr tok"
  shows "UserLdapLogin env db (Some u) =
    (JSON StatusOK (SuccessPayload (login_payload tok (ca_Rule a) (ca_RealName a))), db)"
  using assms by (simp add: UserLdapLogin_def)

theorem UserLdapLogin_known_user_witness:
  "UserLdapLogin demo_services (create_user (CoreAccount_zero\<lparr>ca_Username := ''alice'', ca_Rule := ''admin''\<rparr>) empty_db)
      (Some demo_login) =
    (JSON StatusOK (SuccessPayload (login_payload ''alice:admin'' ''admin'' [])),
     create_user (CoreAccount_zero\<lparr>ca_Username := ''alice'', ca_Rule := ''admin''\<rparr>) empty_db)"
  using UserLdapLogin_known_user [where env = demo_services and u = demo_login
      and db = "create_user (CoreAccount_zero\<lparr>ca_Username := ''alice'', ca_Rule := ''admin''\<rparr>) empty_db"
      and a = "CoreAccount_zero\<lparr>ca_Username := ''alice'', ca_Rule := ''admin''\<rparr>" and tok = "''alice:admin''"]
  by (simp add: demo_services_def demo_login_def empty_db_def First_def accounts_create_user
      CoreAccount_zero_def)

text \<open>C15. A local login succeeds only for an account whose stored username equals the submitted one exactly (a case-folding collation cannot log a user in as another), whose password checks, and the payload carries that account's role and name and the token signed for them.\<close>

theorem UserGeneralLogin_success:
  assumes "UserGeneralLogin env db (Some u) = JSON s (SuccessPayload p)"
  shows "\<exists>a. a \<in> set (accounts db) \<and> ca_Username a = lf_Username u \<and>
             django_check env a (lf_Password u) \<and>
             (\<exists>tok. jwt_auth env (lf_Username u) (ca_Rule a) = Inr tok \<and>
                   p = login_payload tok (ca_Rule a) (ca_RealName a))"
proof (cases "First env db (lf_Username u)")
  case None
  with assms show ?thesis by (simp add: UserGeneralLogin_def)
next
  case (Some a)
  then have "a \<in> set (accounts db)" by (simp add: First_Some)
  with Some assms show ?thesis
    by (auto simp: UserGeneralLogin_def split: if_splits sum.splits)
qed

theorem UserGeneralLogin_success_witness:
  "UserGeneralLogin demo_services (create_user (CoreAccount_zero\<lparr>ca_Username := ''alice'',
      ca_Password := ''secret'', ca_Rule := ''dba''\<rparr>) empty_db) (Some demo_login)
     = JSON StatusOK (SuccessPayload (login_payload ''alice:dba'' ''dba'' [])) \<and>
   (\<exists>a. a \<in> set (accounts (create_user (CoreAccount_zero\<lparr>ca_Username := ''alice'',
      ca_Password := ''secret'', ca_Rule := ''dba''\<rparr>) empty_db)) \<and> ca_Username a = ''alice'' \<and>
      django_check demo_services a ''secret'' \<and>
      (\<exists>tok. jwt_auth demo_services ''alice'' (ca_Rule a) = Inr tok \<and>
         login_payload ''alice:dba'' ''dba'' [] = login_payload tok (ca_Rule a) (ca_RealName a)))"
proof -
  have r: "UserGeneralLogin demo_services (create_user (CoreAccount_zero\<lparr>ca_Username := ''alice'',
      ca_Password := ''secret'', ca_Rule := ''dba''\<rparr>) empty_db) (Some demo_login)
     = JSON StatusOK (SuccessPayload (login_payload ''alice:dba'' ''dba'' []))"
    by (simp add: UserGeneralLogin_def demo_services_def demo_login_def empty_db_def First_def
        accounts_create_user CoreAccount_zero_def)
  show ?thesis
    using r UserGeneralLogin_success [OF r] by (simp add: demo_login_def)
qed

text \<open>C26. With registration open, a new username gets a guest account with the hashed password and its permission row; a username that is taken (up to the collation) is refused with the user-exists message and nothing is written.\<close>

theorem UserRegister_outcome:
  assumes "register_open env"
  shows "(First env db (ca_Username r) = None \<longrightarrow>
            UserRegister env db (Some r) =
              (JSON StatusOK (SuccessPayLoadToMessage register_ok_msg),
               create_user \<lparr>ca_Username = ca_Username r, ca_RealName = ca_RealName r,
                 ca_Password = django_encrypt env (ca_Password r) (get_random env),
                 ca_Rule = ''guest'', ca_Department = ca_Department r, ca_Email = ca_Email r\<rparr> db)) \<and>
         (First env db (ca_Username r) = Some a \<longrightarrow> ca_Username a \<noteq> [] \<longrightarrow>
            UserRegister env db (Some r) = (JSON StatusOK (ERR_COMMON_MESSAGE user_exists_msg), db))"
  using assms by (simp add: UserRegister_def reply_common_def)

theorem UserRegister_outcome_witness:
  "UserRegister demo_services empty_db (Some (CoreAccount_zero\<lparr>ca_Username := ''bob'', ca_Password := ''pw'',
      ca_Rule := ''admin''\<rparr>)) =
     (JSON StatusOK (SuccessPayLoadToMessage register_ok_msg),
      create_user (CoreAccount_zero\<lparr>ca_Username := ''bob'', ca_Password := ''saltpw'',
        ca_Rule := ''guest''\<rparr>) empty_db)"
  using UserRegister_outcome [where env = demo_services and db = empty_db
      and r = "CoreAccount_zero\<lparr>ca_Username := ''bob'', ca_Password := ''pw'', ca_Rule := ''admin''\<rparr>"
      and a = CoreAccount_zero]
  by (simp add: demo_services_def empty_db_def First_def CoreAccount_zero_def)

text \<open>C30. Registration does not reject an empty username, and its duplicate check cannot see an account whose username is empty: registering the empty username twice creates two accounts with the same username.\<close>

theorem UserRegister_empty_name_twice:
  assumes "register_open env" "ca_Username r = []" "First env db [] = None"
  shows "map ca_Username (accounts (snd (UserRegister env (snd (UserRegister env db (Some r))) (Some r))))
           = map ca_Username (accounts db) @ [[], []]"
proof -
  let ?new = "\<lparr>ca_Username = ca_Username r, ca_RealName = ca_RealName r,
                 ca_Password = django_encrypt env (ca_Password r) (get_random env),
                 ca_Rule = ''guest'', ca_Department = ca_Department r, ca_Email = ca_Email r\<rparr>"
  have 1: "snd (UserRegister env db (Some r)) = create_user ?new db"
    using assms by (simp add: UserRegister_def)
  have "First env (create_user ?new db) [] = Some ?new"
    using assms by (simp add: First_create_user_other)
  then have 2: "snd (UserRegister env (create_user ?new db) (Some r)) = create_user ?new (create_user ?new db)"
    using assms by (simp add: UserRegister_def)
  show ?thesis
    unfolding 1 2 using assms(2) by (simp add: accounts_create_user)
qed

theorem UserRegister_empty_name_twice_witness:
  "map ca_Username (accounts (snd (UserRegister demo_services (snd (UserRegister demo_services empty_db
      (Some CoreAccount_zero))) (Some CoreAccount_zero)))) = [[], []]"
  using UserRegister_empty_name_twice [where env = demo_services and r = CoreAccount_zero and db = empty_db]
  by (simp add: demo_services_def empty_db_def First_def CoreAccount_zero_def)

text \<open>C25. On the first GitLab login the callback creates a guest account but signs the token for an empty role and returns empty permissions next to the role guest.\<close>

theorem HandleCallback_new_user:
  assumes "cfg_State c = oauthStateString"
    and "oauth_exchange env (Setup env) (cfg_Code c) = Inr t"
    and "fst (getGitlabUserInfo env t) = Some g"
    and "First env db (gu_Username g) = None"
    and "jwt_auth env (gu_Username g) [] = Inr tok"
  shows "HandleCallback env db (Some c) =
    (JSON StatusOK (SuccessPayload (callback_payload tok (gu_Name g) (gu_Username g) [] ''guest'')),
     create_user \<lparr>ca_Username = gu_Username g, ca_RealName = gu_Name g, ca_Password = [],
       ca_Rule = ''guest'', ca_Department = [], ca_Email = gu_Email g\<rparr> db)"
  using assms by (simp add: HandleCallback_def gitlabUserRegister_def CoreAccount_zero_def Let_def)

theorem HandleCallback_new_user_witness:
  "HandleCallback demo_services empty_db (Some demo_callback) =
    (JSON StatusOK (SuccessPayload (callback_payload ''carol:'' ''Carol'' ''carol'' [] ''guest'')),
     create_user \<lparr>ca_Username = ''carol'', ca_RealName = ''Carol'', ca_Password = [],
       ca_Rule = ''guest'', ca_Department = [], ca_Email = ''carol@example.com''\<rparr> empty_db)"
  using HandleCallback_new_user [where env = demo_services and db = empty_db and c = demo_callback
      and t = "''code1''" and g = demo_gitlab_user and tok = "''carol:''"]
  by (simp add: demo_services_def demo_callback_def demo_gitlab_user_def empty_db_def First_def
      oauthStateString_def getGitlabUserInfo_def)

text \<open>C27. When the GitLab user API fails, the callback ignores the error and dereferences the nil user: the handler panics.\<close>

theorem HandleCallback_nil_user:
  assumes "cfg_State c = oauthStateString"
    and "oauth_exchange env (Setup env) (cfg_Code c) = Inr t"
    and "fst (getGitlabUserInfo env t) = None"
  shows "HandleCallback env db (Some c) = (Panic, db)"
  using assms by (simp add: HandleCallback_def gitlabUserRegister_def)

theorem HandleCallback_nil_user_witness:
  "HandleCallback (demo_services\<lparr>http_get := (\<lambda>url. Inl ''connection refused'')\<rparr>) empty_db (Some demo_callback)
     = (Panic, empty_db)"
  using HandleCallback_nil_user [where env = "demo_services\<lparr>http_get := (\<lambda>url. Inl ''connection refused'')\<rparr>"
      and db = empty_db and c = demo_callback and t = "''code1''"]
  by (simp add: demo_services_def demo_callback_def oauthStateString_def getGitlabUserInfo_def)

text \<open>C28. When signing the token of a new GitLab user fails, the callback replies
  with \<open>ERR_COMMON_MESSAGE(err)\<close> where \<open>err\<close> is the error of the registration step,
  nil for a new user, so building the reply dereferences nil and the handler panics;
  the account it has already created stays.\<close>

theorem HandleCallback_token_error:
  assumes "cfg_State c = oauthStateString"
    and "oauth_exchange env (Setup env) (cfg_Code c) = Inr t"
    and "fst (getGitlabUserInfo env t) = Some g"
    and "First env db (gu_Username g) = None"
    and "jwt_auth env (gu_Username g) [] = Inl e"
  shows "HandleCallback env db (Some c) =
    (Panic,
     create_user \<lparr>ca_Username = gu_Username g, ca_RealName = gu_Name g, ca_Password = [],
       ca_Rule = ''guest'', ca_Department = [], ca_Email = gu_Email g\<rparr> db)"
  using assms by (simp add: HandleCallback_def gitlabUserRegister_def CoreAccount_zero_def Let_def
      reply_common_def)

theorem HandleCallback_token_error_witness:
  "HandleCallback (demo_services\<lparr>jwt_auth := (\<lambda>u r. Inl ''key not set'')\<rparr>) empty_db (Some demo_callback) =
    (Panic,
     create_user \<lparr>ca_Username = ''carol'', ca_RealName = ''Carol'', ca_Password = [],
       ca_Rule = ''guest'', ca_Department = [], ca_Email = ''carol@example.com''\<rparr> empty_db)"
  using HandleCallback_token_error [where env = "demo_services\<lparr>jwt_auth := (\<lambda>u r. Inl ''key not set'')\<rparr>"
      and db = empty_db and c = demo_callback and t = "''code1''" and g = demo_gitlab_user
      and e = "''key not set''"]
  by (simp add: demo_services_def demo_callback_def demo_gitlab_user_def empty_db_def First_def
      oauthStateString_def getGitlabUserInfo_def)

text \<open>C29. When signing the token fails after a correct local login, the handler returns without writing any response body.\<close>

theorem UserGeneralLogin_token_error:
  assumes "First env db (lf_Username u) = Some a" "ca_Username a = lf_Username u"
    and "django_check env a (lf_Password u)" "jwt_auth env (lf_Username u) (ca_Rule a) = Inl e"
  shows "UserGeneralLogin env db (Some u) = Silent"
  using assms by (simp add: UserGeneralLogin_def)

theorem UserGeneralLogin_token_error_witness:
  "UserGeneralLogin (demo_services\<lparr>jwt_auth := (\<lambda>u r. Inl ''key not set'')\<rparr>)
     (create_user (CoreAccount_zero\<lparr>ca_Username := ''alice'', ca_Password := ''secret''\<rparr>) empty_db)
     (Some demo_login) = Silent"
  using UserGeneralLogin_token_error [where env = "demo_services\<lparr>jwt_auth := (\<lambda>u r. Inl ''key not set'')\<rparr>"
      and db = "create_user (CoreAccount_zero\<lparr>ca_Username := ''alice'', ca_Password := ''secret''\<rparr>) empty_db"
      and u = demo_login and a = "CoreAccount_zero\<lparr>ca_Username := ''alice'', ca_Password := ''secret''\<rparr>"
      and e = "''key not set''"]
  by (simp add: demo_services_def demo_login_def empty_db_def First_def accounts_create_user
      CoreAccount_zero_def)

end
