(* ===== verification/Notify.thy ===== *)
theory Notify
  imports Prelude
begin

text \<open>
  \<open>src/lib/wx.go\<close>: who receives the WeCom (WorkWeixin) markdown message of a workflow
  event. \<open>userIds\<close> is the file's fixed table from e-mail address to WeCom user id;
  \<open>whoNeedToSend\<close> looks up the sender and the receiver of a \<open>model.Message\<close>;
  \<open>SendWxMsg\<close> hands the recipients and the text to the WeCom client and only logs a
  failure. The client is a parameter; the state the function changes is the outbox
  of the WeCom application and the log.
\<close>

section \<open>The recipient table\<close>

text \<open>The map literal, in source order.\<close>

definition userIds :: "(string \<times> string) list" where
  "userIds =
     [(''jun.liu@aylaasia.com'', ''LiuJun''),
      (''tao.chen@aylaasia.com'', ''0b7468c8e0f045a490038a2b3ad356fb''),
      (''wei.fan@aylaasia.com'', ''bd5ca88ea2384681af0e00dc6b157496''),
      (''xudong.fu@aylaasia.com'', ''9301a5a2726846f58f8315dfa568bea4''),
      (''jing.lu@aylaasia.com'', ''943e292081f842b8a3780ec5eca945ed''),
      (''jacky.song@aylaasia.com'', ''9a2bf7dc19aa4ed78f0d11ca71432421''),
      (''tyler.tang@aylaasia.com'', ''TangLei''),
      (''xiaodong.wang@aylaasia.com'', ''88c04a58e20a434894154fdb0c23a3a7''),
      (''dinglin.wu@aylaasia.com'', ''WuDingLin''),
      (''lin.yang@aylaasia.com'', ''1cb9d8d2173944a49a00c9df100a2dae''),
      (''guoqiang.ye@aylaasia.com'', ''YeGuoQiang''),
      (''jinghe.zhang@aylaasia.com'', ''ZhangJingHe''),
      (''yinglong.zhang@aylaasia.com'', ''9436641919f243fa831fe9a5ca16b925''),
      (''jim.zhao@aylaasia.com'', ''cff688373b3244039abaf127decaf0e9''),
      (''mingyang.zou@aylaasia.com'', ''ed9a6ce5e0fa4fbea0c97ecb8cf0fcde''),
      (''cheng.chen@aylaasia.com'', ''13027da7ccde410d95140ac7525c4e6e''),
      (''taidong.li@aylaasia.com'', ''LiTaiDong''),
      (''feng.pi@aylaasia.com'', ''5522380e65cf47dbad2db78ad3e7e252'')]"

text \<open>Indexing a Go \<open>map[string]string\<close>: a missing key reads as \<open>""\<close>.\<close>

definition go_map_get :: "(string \<times> string) list \<Rightarrow> string \<Rightarrow> string" where
  "go_map_get m k = (case map_of m k of None \<Rightarrow> [] | Some v \<Rightarrow> v)"

section \<open>Messages and sending\<close>

text \<open>The fields of \<open>model.Message\<close> the file reads.\<close>

record Message =
  msg_User :: string
  msg_ToUser :: string

definition whoNeedToSend :: "Message \<Rightarrow> string list" where
  "whoNeedToSend msg =
     (let u = go_map_get userIds (msg_User msg);
          toU = go_map_get userIds (msg_ToUser msg)
      in [] @ [u, toU])"

text \<open>
  The WeCom application (\<open>workwx.New(CorpID).WithApp(CorpSecret, AgentID)\<close>):
  \<open>wx_send ids text\<close> is the error \<open>SendMarkdownMessage\<close> returns, if any. The state
  is what the application has been asked to deliver and what was logged.
\<close>

record WxApp =
  wx_send :: "string list \<Rightarrow> string \<Rightarrow> string option"

record WxState =
  outbox :: "(string list \<times> string) list"
  wx_log :: "string list"

definition SendWxMsg :: "WxApp \<Rightarrow> Message \<Rightarrow> string \<Rightarrow> WxState \<Rightarrow> WxState" where
  "SendWxMsg app msg sv st =
     (let uIDs = whoNeedToSend msg;
          st' = st\<lparr>outbox := outbox st @ [(uIDs, sv)]\<rparr>
      in case wx_send app uIDs sv of
           Some err \<Rightarrow> st'\<lparr>wx_log := wx_log st' @ [err]\<rparr>
         | None \<Rightarrow> st')"

section \<open>Lemmas\<close>

lemma SendWxMsg_outbox [simp]:
  "outbox (SendWxMsg app msg sv st) = outbox st @ [(whoNeedToSend msg, sv)]"
  by (simp add: SendWxMsg_def Let_def split: option.split)

end
