(* ===== verification/Workflow.thy ===== *)
theory Workflow
  imports Prelude
begin

text \<open>
  The order workflow engine of the specification (sections 3, 4.1--4.3, 5 and 7), whose
  code is not among the repository's sources: the order record, the status machine,
  the assignment resolver, the append-only audit trail, and the commit of a transition
  by compare-and-swap on \<open>(status, current_step)\<close>. A call is split as the
  specification describes it: \<open>prepare\<close> loads the order and decides the transition
  on that snapshot, \<open>commit\<close> applies it if the order's status and step are still
  those of the snapshot. \<open>sys_step\<close> interleaves the two phases of many calls.
\<close>

section \<open>Data\<close>

datatype status =
    Created | Editing | Reviewing | Agreed | Rejected
  | AllEnded | Ended | AllCancelled | Cancelled | Deleted

datatype order_kind = ExecutionOrder | QueryOrderKind

datatype verb = VCreate | VEdit | VDelete | VApprove | VReject | VExecute | VCancel

datatype wf_error =
    ValidationError | InvalidTransition | NotEligible | Forbidden
  | NoReviewerAvailable | Conflict | NotFound

datatype event = OrderCreated | StepCompleted | OrderRejected | OrderExecuted | OrderCancelled

text \<open>An order is a row of \<open>core_sql_orders\<close>: its key \<open>id\<close> and the columns that
  \<open>QueryField\<close> of \<open>types.go\<close> selects for a worklist, in that order (\<open>username\<close> is
  the owner, \<open>type\<close> the kind, \<open>id_c\<close> the IDC, \<open>current_step\<close> the step). The
  status is the specification's state rather than its integer code.\<close>

record order =
  o_id :: nat
  o_work_id :: string
  o_owner :: string
  o_text :: string
  o_backup :: nat
  o_date :: string
  o_real_name :: string
  o_executor :: string
  o_status :: status
  o_kind :: order_kind
  o_delay :: string
  o_source :: string
  o_idc :: string
  o_database :: string
  o_table :: string
  o_execute_time :: string
  o_assigned :: "string list"
  o_step :: nat
  o_relevant :: string

record audit_entry =
  au_order :: nat
  au_step :: nat
  au_actor :: string
  au_action :: verb
  au_status :: status
  au_comment :: string

record wf_event =
  ev_kind :: event
  ev_order :: nat
  ev_work_id :: string
  ev_actor :: string
  ev_next :: "string list"

record store =
  st_orders :: "order list"
  st_audit :: "audit_entry list"
  st_events :: "wf_event list"
  st_next_id :: nat

text \<open>
  The injected configuration (section 9) and the identity contract (section 6):
  the approval chain, one scope label per step; the multi-approver flag; the grants
  and role of each account; the registered accounts in a fixed order.
\<close>

record wf_env =
  chain :: "string list"
  multi_approver :: bool
  grants_for :: "string \<Rightarrow> string list"
  users :: "string list"
  role_of :: "string \<Rightarrow> string"

record submission =
  sb_work_id :: string
  sb_owner :: string
  sb_real_name :: string
  sb_date :: string
  sb_backup :: nat
  sb_text :: string
  sb_source :: string
  sb_idc :: string
  sb_database :: string
  sb_table :: string
  sb_kind :: order_kind
  sb_delay :: string
  sb_relevant :: string

datatype command =
    Edit string string
  | Delete string
  | Approve string
  | Reject string string
  | Execute string
  | Cancel string

section \<open>Statuses\<close>

text \<open>The terminal statuses. The specification lists ended, all-ended, cancelled and
  all-cancelled (section 3). Here \<open>AllEnded\<close> is left out, since Execute and Cancel
  are legal from it (section 4.1), and \<open>Deleted\<close> is added, which the list omits:
  otherwise a deleted order could be deleted or cancelled again, against the
  soft delete of section 3.\<close>

fun terminal :: "status \<Rightarrow> bool" where
  "terminal Ended = True"
| "terminal AllCancelled = True"
| "terminal Cancelled = True"
| "terminal Deleted = True"
| "terminal _ = False"

text \<open>An order awaiting a review decision: \<open>Created\<close> is review step 0.\<close>

fun reviewable :: "status \<Rightarrow> bool" where
  "reviewable Created = True"
| "reviewable Reviewing = True"
| "reviewable _ = False"

fun editable :: "status \<Rightarrow> bool" where
  "editable Created = True"
| "editable Reviewing = True"
| "editable Rejected = True"
| "editable _ = False"

definition is_admin :: "wf_env \<Rightarrow> string \<Rightarrow> bool" where
  "is_admin env u \<longleftrightarrow> role_of env u = ''admin''"

definition owner_or_admin :: "wf_env \<Rightarrow> order \<Rightarrow> string \<Rightarrow> bool" where
  "owner_or_admin env od u \<longleftrightarrow> u = o_owner od \<or> is_admin env u"

section \<open>Assignment resolver\<close>

text \<open>The accounts whose grants hold the label of step \<open>k\<close>; \<open>None\<close> is
  \<open>NoReviewerAvailable\<close>, for an empty set and for a step past the chain.\<close>

definition resolve :: "wf_env \<Rightarrow> nat \<Rightarrow> string list option" where
  "resolve env k =
     (if k < length (chain env)
      then (let s = filter (\<lambda>u. chain env ! k \<in> set (grants_for env u)) (users env)
            in if s = [] then None else Some s)
      else None)"

section \<open>Audit trail\<close>

definition audit_key :: "audit_entry \<Rightarrow> nat \<times> nat \<times> verb" where
  "audit_key e = (au_order e, au_step e, au_action e)"

text \<open>\<open>Append\<close>: a no-op when an entry with the same \<open>(order_id, step, action)\<close>
  is already there.\<close>

definition append_audit :: "audit_entry \<Rightarrow> audit_entry list \<Rightarrow> audit_entry list" where
  "append_audit e log = (if list_ex (\<lambda>x. audit_key x = audit_key e) log then log else log @ [e])"

definition History :: "audit_entry list \<Rightarrow> nat \<Rightarrow> audit_entry list" where
  "History log i = filter (\<lambda>e. au_order e = i) log"

section \<open>Transitions\<close>

text \<open>
  The change a transition makes: the new status, step and eligible set, the text and
  executor when it sets them, and what it records. \<open>NoOp\<close> is the idempotent success
  of cancelling a cancelled order.
\<close>

record change =
  ch_status :: status
  ch_step :: nat
  ch_assigned :: "string list"
  ch_text :: "string option"
  ch_executor :: "string option"
  ch_verb :: verb
  ch_actor :: string
  ch_comment :: string
  ch_event :: "event option"

datatype outcome = NoOp | Step change

definition mk_change ::
  "status \<Rightarrow> nat \<Rightarrow> string list \<Rightarrow> verb \<Rightarrow> string \<Rightarrow> string \<Rightarrow> event option \<Rightarrow> change" where
  "mk_change s k a v actor c ev =
     \<lparr>ch_status = s, ch_step = k, ch_assigned = a, ch_text = None, ch_executor = None,
      ch_verb = v, ch_actor = actor, ch_comment = c, ch_event = ev\<rparr>"

definition apply_change :: "change \<Rightarrow> order \<Rightarrow> order" where
  "apply_change c od =
     od\<lparr>o_status := ch_status c, o_step := ch_step c, o_assigned := ch_assigned c,
       o_text := (case ch_text c of None \<Rightarrow> o_text od | Some t \<Rightarrow> t),
       o_executor := (case ch_executor c of None \<Rightarrow> o_executor od | Some x \<Rightarrow> x)\<rparr>"

text \<open>Edit restarts the review at step 0, for the text it approves is new.\<close>

definition edit_tr :: "wf_env \<Rightarrow> order \<Rightarrow> string \<Rightarrow> string \<Rightarrow> wf_error + outcome" where
  "edit_tr env od actor txt =
     (if \<not> owner_or_admin env od actor then Inl Forbidden
      else if \<not> editable (o_status od) then Inl InvalidTransition
      else case resolve env 0 of
             None \<Rightarrow> Inl NoReviewerAvailable
           | Some el \<Rightarrow> Inr (Step ((mk_change Created 0 el VEdit actor [] None)\<lparr>ch_text := Some txt\<rparr>)))"

definition delete_tr :: "wf_env \<Rightarrow> order \<Rightarrow> string \<Rightarrow> wf_error + outcome" where
  "delete_tr env od actor =
     (if \<not> owner_or_admin env od actor then Inl Forbidden
      else if terminal (o_status od) then Inl InvalidTransition
      else Inr (Step (mk_change Deleted (o_step od) [] VDelete actor [] None)))"

definition approve_tr :: "wf_env \<Rightarrow> order \<Rightarrow> string \<Rightarrow> wf_error + outcome" where
  "approve_tr env od actor =
     (if \<not> reviewable (o_status od) then Inl InvalidTransition
      else if actor \<notin> set (o_assigned od) then Inl NotEligible
      else if length (chain env) \<le> Suc (o_step od)
      then Inr (Step (mk_change AllEnded (Suc (o_step od)) [] VApprove actor [] (Some StepCompleted)))
      else case resolve env (Suc (o_step od)) of
             None \<Rightarrow> Inl NoReviewerAvailable
           | Some el \<Rightarrow> Inr (Step (mk_change Reviewing (Suc (o_step od)) el VApprove actor [] (Some StepCompleted))))"

definition reject_tr :: "wf_env \<Rightarrow> order \<Rightarrow> string \<Rightarrow> string \<Rightarrow> wf_error + outcome" where
  "reject_tr env od actor comment =
     (if \<not> reviewable (o_status od) then Inl InvalidTransition
      else if actor \<notin> set (o_assigned od) then Inl NotEligible
      else if comment = [] then Inl ValidationError
      else Inr (Step (mk_change Rejected (o_step od) [] VReject actor comment (Some OrderRejected))))"

definition execute_tr :: "order \<Rightarrow> string \<Rightarrow> wf_error + outcome" where
  "execute_tr od actor =
     (if o_kind od \<noteq> ExecutionOrder \<or> o_status od \<noteq> AllEnded then Inl InvalidTransition
      else Inr (Step ((mk_change Ended (o_step od) [] VExecute actor [] (Some OrderExecuted))
                        \<lparr>ch_executor := Some actor\<rparr>)))"

definition cancel_tr :: "wf_env \<Rightarrow> order \<Rightarrow> string \<Rightarrow> wf_error + outcome" where
  "cancel_tr env od actor =
     (if \<not> owner_or_admin env od actor then Inl Forbidden
      else if o_status od = Cancelled \<or> o_status od = AllCancelled then Inr NoOp
      else if terminal (o_status od) then Inl InvalidTransition
      else Inr (Step (mk_change (if o_status od = AllEnded then AllCancelled else Cancelled)
                        (o_step od) [] VCancel actor [] (Some OrderCancelled))))"

fun transition :: "wf_env \<Rightarrow> order \<Rightarrow> command \<Rightarrow> wf_error + outcome" where
  "transition env od (Edit a t) = edit_tr env od a t"
| "transition env od (Delete a) = delete_tr env od a"
| "transition env od (Approve a) = approve_tr env od a"
| "transition env od (Reject a c) = reject_tr env od a c"
| "transition env od (Execute a) = execute_tr od a"
| "transition env od (Cancel a) = cancel_tr env od a"

section \<open>The store: create, prepare, commit\<close>

definition load :: "store \<Rightarrow> nat \<Rightarrow> order option" where
  "load st i = find (\<lambda>od. o_id od = i) (st_orders st)"

definition entry_of :: "order \<Rightarrow> verb \<Rightarrow> string \<Rightarrow> string \<Rightarrow> audit_entry" where
  "entry_of od v actor c =
     \<lparr>au_order = o_id od, au_step = o_step od, au_actor = actor, au_action = v,
      au_status = o_status od, au_comment = c\<rparr>"

definition event_of :: "event \<Rightarrow> order \<Rightarrow> string \<Rightarrow> wf_event" where
  "event_of k od actor =
     \<lparr>ev_kind = k, ev_order = o_id od, ev_work_id = o_work_id od, ev_actor = actor,
      ev_next = o_assigned od\<rparr>"

text \<open>\<open>Create\<close>: the coordinates \<open>source\<close> and \<open>database\<close> are required and the
  work id must be new; step 0 must have a reviewer.\<close>

definition create :: "wf_env \<Rightarrow> store \<Rightarrow> submission \<Rightarrow> wf_error + store" where
  "create env st sb =
     (if sb_source sb = [] \<or> sb_database sb = [] \<or>
         list_ex (\<lambda>od. o_work_id od = sb_work_id sb) (st_orders st)
      then Inl ValidationError
      else case resolve env 0 of
             None \<Rightarrow> Inl NoReviewerAvailable
           | Some el \<Rightarrow>
               (let od = \<lparr>o_id = st_next_id st, o_work_id = sb_work_id sb, o_owner = sb_owner sb,
                         o_text = sb_text sb, o_backup = sb_backup sb, o_date = sb_date sb,
                         o_real_name = sb_real_name sb, o_executor = [], o_status = Created,
                         o_kind = sb_kind sb, o_delay = sb_delay sb, o_source = sb_source sb,
                         o_idc = sb_idc sb, o_database = sb_database sb, o_table = sb_table sb,
                         o_execute_time = [], o_assigned = el, o_step = 0,
                         o_relevant = sb_relevant sb\<rparr>
                in Inr (st\<lparr>st_orders := st_orders st @ [od],
                          st_audit := append_audit (entry_of od VCreate (sb_owner sb) []) (st_audit st),
                          st_events := st_events st @ [event_of OrderCreated od (sb_owner sb)],
                          st_next_id := Suc (st_next_id st)\<rparr>)))"

text \<open>A decided transition, with the snapshot's \<open>(status, step)\<close> it expects.\<close>

record prepared =
  pr_id :: nat
  pr_status :: status
  pr_step :: nat
  pr_outcome :: outcome

definition prepare :: "wf_env \<Rightarrow> store \<Rightarrow> nat \<Rightarrow> command \<Rightarrow> wf_error + prepared" where
  "prepare env st i cmd =
     (case load st i of
        None \<Rightarrow> Inl NotFound
      | Some od \<Rightarrow>
          (case transition env od cmd of
             Inl e \<Rightarrow> Inl e
           | Inr out \<Rightarrow> Inr \<lparr>pr_id = i, pr_status = o_status od, pr_step = o_step od, pr_outcome = out\<rparr>))"

text \<open>The write of a change to order \<open>i\<close>, whose current row is \<open>cur\<close>: the row's
  mutations, then its audit entry and its event.\<close>

definition write_change :: "store \<Rightarrow> nat \<Rightarrow> change \<Rightarrow> order \<Rightarrow> store" where
  "write_change st i c cur =
     (let od' = apply_change c cur
      in st\<lparr>st_orders := map (\<lambda>x. if o_id x = i then apply_change c x else x) (st_orders st),
            st_audit := append_audit (entry_of od' (ch_verb c) (ch_actor c) (ch_comment c)) (st_audit st),
            st_events := st_events st @
              (case ch_event c of None \<Rightarrow> [] | Some k \<Rightarrow> [event_of k od' (ch_actor c)])\<rparr>)"

text \<open>\<open>CompareAndSwap\<close> on \<open>(status, current_step)\<close>, then the write; the audit entry
  and the event follow only a successful swap.\<close>

definition commit :: "store \<Rightarrow> prepared \<Rightarrow> wf_error + store" where
  "commit st p =
     (case load st (pr_id p) of
        None \<Rightarrow> Inl NotFound
      | Some cur \<Rightarrow>
          (if o_status cur \<noteq> pr_status p \<or> o_step cur \<noteq> pr_step p then Inl Conflict
           else case pr_outcome p of
                  NoOp \<Rightarrow> Inr st
                | Step c \<Rightarrow> Inr (write_change st (pr_id p) c cur)))"


definition apply_cmd :: "wf_env \<Rightarrow> store \<Rightarrow> nat \<Rightarrow> command \<Rightarrow> wf_error + store" where
  "apply_cmd env st i cmd = (case prepare env st i cmd of Inl e \<Rightarrow> Inl e | Inr p \<Rightarrow> commit st p)"

section \<open>Concurrent calls\<close>

text \<open>
  The engine's state with the calls in flight: each has prepared its transition on
  the snapshot it read and has not committed yet. A step creates an order, starts a
  call, or commits one of the calls in flight, successfully or not.
\<close>

inductive sys_step :: "wf_env \<Rightarrow> store \<times> prepared list \<Rightarrow> store \<times> prepared list \<Rightarrow> bool"
  for env where
  sys_create: "create env st sb = Inr st' \<Longrightarrow> sys_step env (st, ps) (st', ps)"
| sys_prepare: "prepare env st i c = Inr p \<Longrightarrow> sys_step env (st, ps) (st, ps @ [p])"
| sys_commit: "p \<in> set ps \<Longrightarrow> commit st p = Inr st' \<Longrightarrow> sys_step env (st, ps) (st', remove1 p ps)"
| sys_abort: "p \<in> set ps \<Longrightarrow> commit st p = Inl e \<Longrightarrow> sys_step env (st, ps) (st, remove1 p ps)"

definition empty_store :: store where
  "empty_store = \<lparr>st_orders = [], st_audit = [], st_events = [], st_next_id = 0\<rparr>"

inductive sys_reach :: "wf_env \<Rightarrow> store \<times> prepared list \<Rightarrow> bool" for env where
  reach_init: "sys_reach env (empty_store, [])"
| reach_step: "sys_reach env s \<Longrightarrow> sys_step env s s' \<Longrightarrow> sys_reach env s'"

section \<open>Invariants\<close>

text \<open>
  What every order in the store satisfies: an order under review is at a step of the
  chain and has reviewers, all registered; a created order is at step 0; a fully
  approved order, and one executed or cancelled after full approval, is past the last
  step; only an order under review has reviewers; \<open>Editing\<close> and \<open>Agreed\<close>, which no
  transition produces, never occur.
\<close>

definition status_ok :: "wf_env \<Rightarrow> status \<Rightarrow> nat \<Rightarrow> string list \<Rightarrow> bool" where
  "status_ok env s k a \<longleftrightarrow>
     (if reviewable s then k < length (chain env) \<and> a \<noteq> [] \<and> set a \<subseteq> set (users env)
      else a = []) \<and>
     (s = Created \<longrightarrow> k = 0) \<and>
     (s = AllEnded \<or> s = Ended \<or> s = AllCancelled \<longrightarrow> k = length (chain env)) \<and>
     s \<noteq> Editing \<and> s \<noteq> Agreed"

definition order_ok :: "wf_env \<Rightarrow> order \<Rightarrow> bool" where
  "order_ok env od \<longleftrightarrow> status_ok env (o_status od) (o_step od) (o_assigned od)"

definition change_ok :: "wf_env \<Rightarrow> change \<Rightarrow> bool" where
  "change_ok env c \<longleftrightarrow> status_ok env (ch_status c) (ch_step c) (ch_assigned c)"

text \<open>The store's invariant: every order is well formed, ids and work ids are
  unique, ids are below the next id.\<close>

definition store_ok :: "wf_env \<Rightarrow> store \<Rightarrow> bool" where
  "store_ok env st \<longleftrightarrow>
     list_all (order_ok env) (st_orders st) \<and>
     distinct (map o_id (st_orders st)) \<and> distinct (map o_work_id (st_orders st)) \<and>
     list_all (\<lambda>od. o_id od < st_next_id st) (st_orders st)"

text \<open>The invariant of the engine with calls in flight: the store's, and every
  prepared change is well formed.\<close>

definition sys_ok :: "wf_env \<Rightarrow> store \<times> prepared list \<Rightarrow> bool" where
  "sys_ok env s \<longleftrightarrow>
     store_ok env (fst s) \<and>
     list_all (\<lambda>p. case pr_outcome p of NoOp \<Rightarrow> True | Step c \<Rightarrow> change_ok env c) (snd s)"

section \<open>The lifecycle the specification allows\<close>

text \<open>
  The abstract state machine of section 4.1: which status may follow which. An order
  under review moves to the next review step, to full approval or to rejection; an
  editable order (under review, or rejected) returns to \<open>Created\<close>; a non-terminal
  order may be deleted, or cancelled (into \<open>AllCancelled\<close> once fully approved); a
  fully approved order is executed.
\<close>

inductive lifecycle :: "status \<Rightarrow> status \<Rightarrow> bool" where
  review_next: "reviewable s \<Longrightarrow> lifecycle s Reviewing"
| review_done: "reviewable s \<Longrightarrow> lifecycle s AllEnded"
| reject: "reviewable s \<Longrightarrow> lifecycle s Rejected"
| edit: "editable s \<Longrightarrow> lifecycle s Created"
| delete: "\<not> terminal s \<Longrightarrow> lifecycle s Deleted"
| cancel: "\<not> terminal s \<Longrightarrow> s \<noteq> AllEnded \<Longrightarrow> lifecycle s Cancelled"
| cancel_approved: "lifecycle AllEnded AllCancelled"
| execute: "lifecycle AllEnded Ended"

code_pred lifecycle .

section \<open>Calls in sequence\<close>

text \<open>Calls made one after the other, each on the store the previous one left; the
  first failure ends the sequence, as a caller that stops on error would.\<close>

fun run_cmds :: "wf_env \<Rightarrow> store \<Rightarrow> (nat \<times> command) list \<Rightarrow> wf_error + store" where
  "run_cmds env st [] = Inr st"
| "run_cmds env st ((i, c) # cs) =
     (case apply_cmd env st i c of Inl e \<Rightarrow> Inl e | Inr st' \<Rightarrow> run_cmds env st' cs)"

section \<open>A concrete configuration\<close>

text \<open>A one-step chain whose label \<open>dba\<close> only \<open>bob\<close> holds, \<open>root\<close> the only admin,
  and the order \<open>W1\<close> that \<open>alice\<close> submits for source \<open>s1\<close> and database \<open>d1\<close>.\<close>

definition demo_env :: wf_env where
  "demo_env =
     \<lparr>chain = [''dba''], multi_approver = False,
      grants_for = (\<lambda>u. if u = ''bob'' then [''dba''] else []),
      users = [''alice'', ''bob'', ''carol'', ''root''],
      role_of = (\<lambda>u. if u = ''root'' then ''admin'' else ''guest'')\<rparr>"

definition demo_sub :: submission where
  "demo_sub =
     \<lparr>sb_work_id = ''W1'', sb_owner = ''alice'', sb_real_name = ''Alice'', sb_date = ''2026-11-09'',
      sb_backup = 1, sb_text = ''UPDATE t SET a = 1'', sb_source = ''s1'',
      sb_idc = ''idc1'', sb_database = ''d1'', sb_table = ''t'', sb_kind = ExecutionOrder,
      sb_delay = [], sb_relevant = []\<rparr>"

section \<open>Lemmas on the store\<close>


lemma load_Some [store_simps]: "load st i = Some od \<Longrightarrow> od \<in> set (st_orders st) \<and> o_id od = i"
  unfolding load_def by (drule find_Some_in_set) simp

lemma resolve_Some:
  "resolve env k = Some el \<Longrightarrow> k < length (chain env) \<and> el \<noteq> [] \<and> set el \<subseteq> set (users env)"
  by (auto simp: resolve_def Let_def split: if_splits)

lemma find_map_update:
  assumes "\<And>x. o_id (f x) = o_id x"
  shows "find (\<lambda>x. o_id x = i) (map (\<lambda>x. if o_id x = i then f x else x) xs) =
     map_option f (find (\<lambda>x. o_id x = i) xs)"
  by (induction xs) (auto simp: assms)

lemma order_ok_apply_change [simp]: "order_ok env (apply_change c od) = change_ok env c"
  by (simp add: order_ok_def change_ok_def apply_change_def)

lemma apply_change_frame [simp]:
  "o_id (apply_change c od) = o_id od" "o_work_id (apply_change c od) = o_work_id od"
  "o_owner (apply_change c od) = o_owner od" "o_source (apply_change c od) = o_source od"
  "o_database (apply_change c od) = o_database od" "o_kind (apply_change c od) = o_kind od"
  by (simp_all add: apply_change_def)

lemma change_ok_mk_change [simp]:
  "change_ok env (mk_change s k a v actor c ev) = status_ok env s k a"
  "change_ok env ((mk_change s k a v actor c ev)\<lparr>ch_text := t\<rparr>) = status_ok env s k a"
  "change_ok env ((mk_change s k a v actor c ev)\<lparr>ch_executor := x\<rparr>) = status_ok env s k a"
  by (simp_all add: change_ok_def mk_change_def)

text \<open>Every transition decided on a well-formed order is well formed.\<close>

lemma transition_change_ok:
  assumes "order_ok env od" "transition env od cmd = Inr (Step c)"
  shows "change_ok env c"
proof (cases cmd)
  case (Edit a t)
  with assms show ?thesis
    by (auto simp: edit_tr_def status_ok_def dest!: resolve_Some split: if_splits option.splits)
next
  case (Delete a)
  with assms show ?thesis
    by (cases "o_status od") (auto simp: delete_tr_def status_ok_def order_ok_def split: if_splits)
next
  case (Approve a)
  with assms show ?thesis
    by (auto simp: approve_tr_def status_ok_def order_ok_def le_Suc_eq dest!: resolve_Some
        split: if_splits option.splits)

next
  case (Reject a m)
  with assms show ?thesis
    by (auto simp: reject_tr_def status_ok_def order_ok_def split: if_splits)
next
  case (Execute a)
  with assms show ?thesis
    by (auto simp: execute_tr_def status_ok_def order_ok_def split: if_splits)
next
  case (Cancel a)
  with assms show ?thesis
    by (cases "o_status od") (auto simp: cancel_tr_def status_ok_def order_ok_def split: if_splits)
qed

lemma map_update_ids [simp]:
  "map o_id (map (\<lambda>x. if o_id x = i then apply_change c x else x) xs) = map o_id xs"
  "map o_work_id (map (\<lambda>x. if o_id x = i then apply_change c x else x) xs) = map o_work_id xs"
  by (induction xs) auto

lemma load_write_change [store_simps]:
  "load (write_change st i c cur) i = map_option (apply_change c) (load st i)"
  by (simp add: load_def write_change_def Let_def find_map_update)

lemma load_write_change_other [store_simps]:
  "j \<noteq> i \<Longrightarrow> load (write_change st i c cur) j = load st j"
proof -
  assume "j \<noteq> i"
  then have "find (\<lambda>x. o_id x = j) (map (\<lambda>x. if o_id x = i then apply_change c x else x) xs) =
      find (\<lambda>x. o_id x = j) xs" for xs
    by (induction xs) auto
  then show ?thesis by (simp add: load_def write_change_def Let_def)
qed

lemma write_change_fields [store_simps]:
  "map o_id (st_orders (write_change st i c cur)) = map o_id (st_orders st)"
  "map o_work_id (st_orders (write_change st i c cur)) = map o_work_id (st_orders st)"
  "st_next_id (write_change st i c cur) = st_next_id st"
  by (simp_all add: write_change_def Let_def)

lemma commit_Inr:
  assumes "commit st p = Inr st'"
  obtains cur where "load st (pr_id p) = Some cur" "o_status cur = pr_status p" "o_step cur = pr_step p"
    and "pr_outcome p = NoOp" "st' = st"
  | cur c where "load st (pr_id p) = Some cur" "o_status cur = pr_status p" "o_step cur = pr_step p"
    and "pr_outcome p = Step c" "st' = write_change st (pr_id p) c cur"
  using assms by (auto simp: commit_def split: option.splits if_splits outcome.splits)

lemma write_change_store_ok:
  assumes "store_ok env st" "change_ok env c"
  shows "store_ok env (write_change st i c cur)"
  using assms unfolding store_ok_def
  by (simp add: write_change_fields) (auto simp: list_all_iff write_change_def Let_def)

lemma commit_store_ok:
  assumes "store_ok env st" "commit st p = Inr st'"
    and "\<And>c. pr_outcome p = Step c \<Longrightarrow> change_ok env c"
  shows "store_ok env st'"
  using assms(2)
proof (cases rule: commit_Inr)
  case (2 cur c)
  then show ?thesis using assms by (simp add: write_change_store_ok)
qed (use assms(1) in simp)

lemma prepare_Inr:
  assumes "prepare env st i cmd = Inr p"
  obtains od out where "load st i = Some od" "transition env od cmd = Inr out"
    "p = \<lparr>pr_id = i, pr_status = o_status od, pr_step = o_step od, pr_outcome = out\<rparr>"
  using assms by (auto simp: prepare_def split: option.splits sum.splits)

lemma prepare_change_ok:
  assumes "store_ok env st" "prepare env st i cmd = Inr p" "pr_outcome p = Step c"
  shows "change_ok env c"
  using assms(2)
proof (cases rule: prepare_Inr)
  case (1 od out)
  then have "order_ok env od"
    using assms(1) load_Some [OF 1(1)] by (auto simp: store_ok_def list_all_iff)
  with 1 assms(3) show ?thesis by (auto intro: transition_change_ok)
qed

lemma create_Inr:
  assumes "create env st sb = Inr st'"
  obtains el where "resolve env 0 = Some el" "sb_source sb \<noteq> []" "sb_database sb \<noteq> []"
    "\<not> list_ex (\<lambda>od. o_work_id od = sb_work_id sb) (st_orders st)"
    "st_orders st' = st_orders st @ [\<lparr>o_id = st_next_id st, o_work_id = sb_work_id sb,
              o_owner = sb_owner sb, o_text = sb_text sb, o_backup = sb_backup sb, o_date = sb_date sb,
              o_real_name = sb_real_name sb, o_executor = [], o_status = Created, o_kind = sb_kind sb,
              o_delay = sb_delay sb, o_source = sb_source sb, o_idc = sb_idc sb,
              o_database = sb_database sb, o_table = sb_table sb, o_execute_time = [], o_assigned = el,
              o_step = 0, o_relevant = sb_relevant sb\<rparr>]"
    "st_next_id st' = Suc (st_next_id st)"
  using assms by (auto simp: create_def Let_def split: if_splits option.splits)

lemma create_store_ok:
  assumes "store_ok env st" "create env st sb = Inr st'"
  shows "store_ok env st'"
  using assms(2)
proof (cases rule: create_Inr)
  case (1 el)
  have "0 < length (chain env) \<and> el \<noteq> [] \<and> set el \<subseteq> set (users env)"
    using resolve_Some [OF 1(1)] by simp
  with assms(1) 1 show ?thesis
    by (auto simp: store_ok_def list_all_iff list_ex_iff order_ok_def status_ok_def)
qed

lemma sys_step_ok:
  assumes "sys_step env s s'" "sys_ok env s"
  shows "sys_ok env s'"
  using assms
proof (induction rule: sys_step.induct)
  case (sys_create st sb st' ps)
  then show ?case by (auto simp: sys_ok_def intro: create_store_ok)
next
  case (sys_prepare st i c p ps)
  then show ?case
    by (auto simp: sys_ok_def intro: prepare_change_ok split: outcome.split)
next
  case (sys_commit p ps st st')
  then have "case pr_outcome p of NoOp \<Rightarrow> True | Step c \<Rightarrow> change_ok env c"
    by (auto simp: sys_ok_def list_all_iff)
  with sys_commit show ?case
    by (auto simp: sys_ok_def intro: commit_store_ok list_all_remove1)
next
  case (sys_abort p ps st e)
  then show ?case by (auto simp: sys_ok_def intro: list_all_remove1)

qed

lemma sys_reach_ok: "sys_reach env s \<Longrightarrow> sys_ok env s"
proof (induction rule: sys_reach.induct)
  case reach_init
  then show ?case by (simp add: sys_ok_def store_ok_def empty_store_def)
next
  case (reach_step s s')
  from reach_step.hyps(2) reach_step.IH show ?case by (rule sys_step_ok)
qed


lemma apply_cmd_Inr:
  assumes "apply_cmd env st i cmd = Inr st'"
  obtains od where "load st i = Some od" "transition env od cmd = Inr NoOp" "st' = st"
  | od c where "load st i = Some od" "transition env od cmd = Inr (Step c)"
      "st' = write_change st i c od"
proof -
  obtain p where p: "prepare env st i cmd = Inr p" "commit st p = Inr st'"
    using assms by (auto simp: apply_cmd_def split: sum.splits)
  from p(1) show ?thesis
  proof (cases rule: prepare_Inr)
    case (1 od out)
    show ?thesis
    proof (cases out)
      case NoOp
      with 1 p(2) have "st' = st" by (simp add: commit_def)
      with 1 NoOp show ?thesis by (intro that(1)) simp_all
    next
      case (Step c)
      with 1 p(2) have "st' = write_change st i c od" by (simp add: commit_def)
      with 1 Step show ?thesis by (intro that(2)) simp_all
    qed
  qed
qed


lemma transition_lifecycle:
  "transition env od cmd = Inr (Step c) \<Longrightarrow> lifecycle (o_status od) (ch_status c)"
  by (cases cmd)
     (auto simp: edit_tr_def delete_tr_def approve_tr_def reject_tr_def execute_tr_def cancel_tr_def
        mk_change_def intro: lifecycle.intros split: if_splits option.splits)

lemma approve_tr_Inr:
  assumes "approve_tr env od a = Inr out"
  shows "\<exists>c. out = Step c \<and> ch_step c = Suc (o_step od)"
  using assms by (auto simp: approve_tr_def mk_change_def split: if_splits option.splits)

lemma append_audit_grows: "\<exists>xs. append_audit e log = log @ xs"
  by (simp add: append_audit_def)

lemma write_change_grows:
  "(\<exists>xs. st_audit (write_change st i c cur) = st_audit st @ xs) \<and>
   (\<exists>ys. st_events (write_change st i c cur) = st_events st @ ys)"
  by (simp add: write_change_def Let_def append_audit_grows)

lemma cancel_tr_status:
  "cancel_tr env od a = Inr (Step c) \<Longrightarrow> ch_status c = Cancelled \<or> ch_status c = AllCancelled"
  by (auto simp: cancel_tr_def mk_change_def split: if_splits)

lemma owner_or_admin_apply_change [simp]:
  "owner_or_admin env (apply_change c od) a = owner_or_admin env od a"
  by (simp add: owner_or_admin_def)

lemmas demo_eval = create_def demo_env_def demo_sub_def resolve_def empty_store_def Let_def load_def
  apply_cmd_def prepare_def commit_def approve_tr_def write_change_def apply_change_def mk_change_def

lemma lifecycle_not_terminal: "lifecycle s s' \<Longrightarrow> \<not> terminal s"
proof (induction rule: lifecycle.induct)
  case (review_next s) then show ?case by (cases s) simp_all
next
  case (review_done s) then show ?case by (cases s) simp_all
next
  case (reject s) then show ?case by (cases s) simp_all
next
  case (edit s) then show ?case by (cases s) simp_all
qed simp_all

lemma write_change_frame:
  "map (\<lambda>od. (o_id od, o_work_id od, o_owner od, o_source od, o_database od, o_kind od))
       (st_orders (write_change st i c cur)) =
   map (\<lambda>od. (o_id od, o_work_id od, o_owner od, o_source od, o_database od, o_kind od)) (st_orders st)"
  by (simp add: write_change_def Let_def)

lemma create_grows:
  assumes "create env st sb = Inr st'"
  shows "(\<exists>xs. st_audit st' = st_audit st @ xs) \<and> (\<exists>ys. st_events st' = st_events st @ ys) \<and>
         (\<exists>zs. map o_id (st_orders st') = map o_id (st_orders st) @ zs)"
  using assms by (auto simp: create_def Let_def append_audit_grows split: if_splits option.splits)

lemma write_change_ids: "map o_id (st_orders (write_change st i c cur)) = map o_id (st_orders st)"
  by (simp add: write_change_def Let_def)

lemma apply_cmd_transition:
  assumes "apply_cmd env st i cmd = Inr st'" "load st i = Some od"
  shows "\<exists>out. transition env od cmd = Inr out"
  using assms(1) by (cases rule: apply_cmd_Inr) (use assms(2) in auto)

lemma transition_not_conflict: "transition env od cmd \<noteq> Inl Conflict"
  by (cases cmd) (auto simp: edit_tr_def delete_tr_def approve_tr_def reject_tr_def execute_tr_def
      cancel_tr_def split: if_splits option.splits)

lemma apply_cmd_transition_cases:
  assumes "load st i = Some od"
  shows "apply_cmd env st i cmd =
    (case transition env od cmd of
       Inl e \<Rightarrow> Inl e
     | Inr NoOp \<Rightarrow> Inr st
     | Inr (Step c) \<Rightarrow> Inr (write_change st i c od))"
  using assms by (simp add: apply_cmd_def prepare_def commit_def split: sum.split outcome.split)

lemma write_change_events:
  "st_events (write_change st i c cur) =
     st_events st @ (case ch_event c of None \<Rightarrow> [] | Some k \<Rightarrow> [event_of k (apply_change c cur) (ch_actor c)])"
  by (simp add: write_change_def Let_def)

lemma write_change_audit:
  "st_audit (write_change st i c cur) =
     append_audit (entry_of (apply_change c cur) (ch_verb c) (ch_actor c) (ch_comment c)) (st_audit st)"
  by (simp add: write_change_def Let_def)

lemma write_change_nth:
  "k < length (st_orders st) \<Longrightarrow> o_id (st_orders st ! k) \<noteq> i \<Longrightarrow>
     st_orders (write_change st i c cur) ! k = st_orders st ! k"
  by (simp add: write_change_def Let_def)

section \<open>Properties of the engine\<close>

text \<open>C1. In every state the engine can reach, with any number of calls in flight and
  committed in any order, each order's status, step and reviewers agree: an order under
  review is at a step of the chain with registered reviewers, a created one at step 0,
  a fully approved, executed or approved-then-cancelled one past the last step, only
  orders under review have reviewers; and work ids are unique.\<close>

theorem sys_reach_orders_ok:
  assumes "sys_reach env s"
  shows "list_all (order_ok env) (st_orders (fst s)) \<and> distinct (map o_work_id (st_orders (fst s)))"
  using sys_reach_ok [OF assms] by (simp add: sys_ok_def store_ok_def)

theorem sys_reach_orders_ok_witness:
  "list_all (order_ok demo_env) (st_orders (projr (create demo_env empty_store demo_sub))) \<and>
   distinct (map o_work_id (st_orders (projr (create demo_env empty_store demo_sub))))"
proof -
  have c: "create demo_env empty_store demo_sub = Inr (projr (create demo_env empty_store demo_sub))"
    by (simp add: create_def demo_env_def demo_sub_def resolve_def empty_store_def Let_def)
  have "sys_reach demo_env (projr (create demo_env empty_store demo_sub), [])"
    by (rule reach_step [OF reach_init sys_create [OF c]])
  from sys_reach_orders_ok [OF this] show ?thesis
    by (simp add: create_def demo_env_def demo_sub_def resolve_def empty_store_def Let_def)
qed

text \<open>C3. A call prepared on any earlier snapshot and committed now moves the order
  only along the lifecycle of the specification: the compare-and-swap on status and step
  makes the transition decided on the snapshot one that is allowed from the order's
  current status. An idempotent call leaves the order as it is.\<close>

theorem commit_refines_lifecycle:
  assumes "prepare env st0 i cmd = Inr p" "commit st p = Inr st'" "load st i = Some od"
  shows "\<exists>od'. load st' i = Some od' \<and> (od' = od \<or> lifecycle (o_status od) (o_status od'))"
  using assms(1)
proof (cases rule: prepare_Inr)
  case (1 od0 out)
  note pr = this
  from assms(2) show ?thesis
  proof (cases rule: commit_Inr)
    case (1 cur)
    with assms(3) show ?thesis by simp
  next
    case (2 cur c)
    from 2(1) assms(3) pr(3) have cur: "cur = od" by simp
    from 2(2) pr(3) cur have st: "o_status od = o_status od0" by simp
    from 2(4) pr(3) have out: "out = Step c" by simp
    from pr(2) out st have lc: "lifecycle (o_status od) (ch_status c)" by (simp add: transition_lifecycle)
    from 2(5) pr(3) assms(3) have "load st' i = Some (apply_change c od)"
      by (simp add: store_simps)
    with lc show ?thesis by (simp add: apply_change_def)
  qed
qed

theorem commit_refines_lifecycle_witness:
  "\<exists>od'. load (projr (apply_cmd demo_env (projr (create demo_env empty_store demo_sub)) 0 (Approve ''bob''))) 0
      = Some od' \<and>
     (od' = hd (st_orders (projr (create demo_env empty_store demo_sub))) \<or> lifecycle Created (o_status od'))"
proof -
  let ?st = "projr (create demo_env empty_store demo_sub)"
  let ?p = "projr (prepare demo_env ?st 0 (Approve ''bob''))"
  have p: "prepare demo_env ?st 0 (Approve ''bob'') = Inr ?p"
    by (simp add: demo_eval)
  have cm: "commit ?st ?p = Inr (projr (apply_cmd demo_env ?st 0 (Approve ''bob'')))"
    by (simp add: demo_eval)
  have l: "load ?st 0 = Some (hd (st_orders ?st))"
    by (simp add: demo_eval)
  have s: "o_status (hd (st_orders ?st)) = Created"
    by (simp add: demo_eval)
  from commit_refines_lifecycle [OF p cm l] show ?thesis
    unfolding s .
qed

text \<open>C2. Of two approvals prepared on the same snapshot, the first to commit
  advances the order by exactly one step and the second is refused with
  \<open>Conflict\<close>: one decision per step, whatever the interleaving.\<close>

theorem approve_race:
  assumes "prepare env st i (Approve a) = Inr p1" "prepare env st i (Approve b) = Inr p2"
  shows "\<exists>st1 od od1. commit st p1 = Inr st1 \<and> commit st1 p2 = Inl Conflict \<and>
           load st i = Some od \<and> load st1 i = Some od1 \<and> o_step od1 = Suc (o_step od)"
proof -
  obtain od out1 where l: "load st i = Some od" and t1: "approve_tr env od a = Inr out1"
    and p1: "p1 = \<lparr>pr_id = i, pr_status = o_status od, pr_step = o_step od, pr_outcome = out1\<rparr>"
    using assms(1) by (cases rule: prepare_Inr) auto
  obtain od' out2 where l2: "load st i = Some od'"
    and p2: "p2 = \<lparr>pr_id = i, pr_status = o_status od', pr_step = o_step od', pr_outcome = out2\<rparr>"
    using assms(2) by (cases rule: prepare_Inr) auto
  from l l2 have "od' = od" by simp
  obtain c where out1: "out1 = Step c" and step: "ch_step c = Suc (o_step od)"
    using approve_tr_Inr [OF t1] by blast
  let ?st1 = "write_change st i c od"
  have cm1: "commit st p1 = Inr ?st1" using l p1 out1 by (simp add: commit_def)
  have l1: "load ?st1 i = Some (apply_change c od)" using l by (simp add: store_simps)
  have s1: "o_step (apply_change c od) = Suc (o_step od)" by (simp add: apply_change_def step)
  have "commit ?st1 p2 = Inl Conflict" using l1 p2 s1 \<open>od' = od\<close> by (simp add: commit_def)
  with cm1 l l1 s1 show ?thesis by blast
qed

theorem approve_race_witness:
  "\<exists>st1 od od1. commit (projr (create demo_env empty_store demo_sub))
        (projr (prepare demo_env (projr (create demo_env empty_store demo_sub)) 0 (Approve ''bob''))) = Inr st1 \<and>
      commit st1 (projr (prepare demo_env (projr (create demo_env empty_store demo_sub)) 0 (Approve ''bob'')))
        = Inl Conflict \<and>
      load (projr (create demo_env empty_store demo_sub)) 0 = Some od \<and> load st1 0 = Some od1 \<and>
      o_step od1 = Suc (o_step od)"
proof -
  let ?st = "projr (create demo_env empty_store demo_sub)"
  have p: "prepare demo_env ?st 0 (Approve ''bob'') = Inr (projr (prepare demo_env ?st 0 (Approve ''bob'')))"
    by (simp add: demo_eval)
  show ?thesis by (rule approve_race [OF p p])
qed

text \<open>C13. The compare-and-swap key \<open>(status, current_step)\<close> does not see an
  edit of a new order: an edit resets a \<open>Created\<close> order to \<open>Created\<close> at step 0, so an
  approval prepared before the edit still commits after it, and the order moves on
  with the edited text that the approver never saw.\<close>

theorem edit_approve_race:
  assumes "prepare env st i (Approve a) = Inr pa" "prepare env st i (Edit u t) = Inr pe"
    and "load st i = Some od" "o_status od = Created" "o_step od = 0"
  shows "\<exists>st1 st2 od2. commit st pe = Inr st1 \<and> commit st1 pa = Inr st2 \<and> load st2 i = Some od2 \<and>
           o_text od2 = t \<and> o_step od2 = 1"
proof -
  obtain outa where ta: "approve_tr env od a = Inr outa"
    and pa: "pa = \<lparr>pr_id = i, pr_status = o_status od, pr_step = o_step od, pr_outcome = outa\<rparr>"
    using assms(1,3) by (cases rule: prepare_Inr) auto
  obtain oute where te: "edit_tr env od u t = Inr oute"
    and pe: "pe = \<lparr>pr_id = i, pr_status = o_status od, pr_step = o_step od, pr_outcome = oute\<rparr>"
    using assms(2,3) by (cases rule: prepare_Inr) auto
  obtain el where oute: "oute = Step ((mk_change Created 0 el VEdit u [] None)\<lparr>ch_text := Some t\<rparr>)"
    using te by (auto simp: edit_tr_def split: if_splits option.splits)
  obtain ca where outa: "outa = Step ca" and sa: "ch_step ca = Suc (o_step od)"
    using approve_tr_Inr [OF ta] by blast
  have ta_text: "ch_text ca = None"
    using ta outa by (auto simp: approve_tr_def mk_change_def split: if_splits option.splits)
  let ?ce = "(mk_change Created 0 el VEdit u [] None)\<lparr>ch_text := Some t\<rparr>"
  let ?st1 = "write_change st i ?ce od"
  let ?od1 = "apply_change ?ce od"
  have c1: "commit st pe = Inr ?st1" using assms(3) pe oute by (simp add: commit_def)
  have l1: "load ?st1 i = Some ?od1" using assms(3) by (simp add: store_simps)
  have od1: "o_status ?od1 = Created" "o_step ?od1 = 0" "o_text ?od1 = t"
    by (simp_all add: apply_change_def mk_change_def)
  let ?st2 = "write_change ?st1 i ca ?od1"
  have c2: "commit ?st1 pa = Inr ?st2" using l1 od1 pa outa assms(4,5) by (simp add: commit_def)
  have l2: "load ?st2 i = Some (apply_change ca ?od1)"
    by (simp only: load_write_change [of ?st1 i ca ?od1] l1 option.map)
  have t2: "o_text (apply_change ca ?od1) = t" using od1(3) ta_text by (simp add: apply_change_def)
  have s2: "o_step (apply_change ca ?od1) = 1" using sa assms(5) by (simp add: apply_change_def)
  show ?thesis by (intro exI conjI, fact c1, fact c2, fact l2, fact t2, fact s2)
qed

theorem edit_approve_race_witness:
  "\<exists>st1 st2 od2.
     commit (projr (create demo_env empty_store demo_sub))
       (projr (prepare demo_env (projr (create demo_env empty_store demo_sub)) 0 (Edit ''alice'' ''DELETE FROM t''))) = Inr st1 \<and>
     commit st1 (projr (prepare demo_env (projr (create demo_env empty_store demo_sub)) 0 (Approve ''bob''))) = Inr st2 \<and>
     load st2 0 = Some od2 \<and> o_text od2 = ''DELETE FROM t'' \<and> o_step od2 = 1"
proof -
  let ?st = "projr (create demo_env empty_store demo_sub)"
  have pa: "prepare demo_env ?st 0 (Approve ''bob'') = Inr (projr (prepare demo_env ?st 0 (Approve ''bob'')))"
    by (simp add: demo_eval)
  have pe: "prepare demo_env ?st 0 (Edit ''alice'' ''DELETE FROM t'') =
      Inr (projr (prepare demo_env ?st 0 (Edit ''alice'' ''DELETE FROM t'')))"
    by (simp add: demo_eval edit_tr_def owner_or_admin_def)
  have l: "load ?st 0 = Some (hd (st_orders ?st))" by (simp add: demo_eval)
  have s: "o_status (hd (st_orders ?st)) = Created" "o_step (hd (st_orders ?st)) = 0"
    by (simp_all add: demo_eval)
  show ?thesis by (rule edit_approve_race [OF pa pe l s])
qed

text \<open>C9. Cancelling is idempotent: once a cancel has succeeded, the same cancel
  succeeds again and changes nothing, no second audit entry or event included.\<close>

theorem cancel_idempotent:
  assumes "apply_cmd env st i (Cancel a) = Inr st1"
  shows "apply_cmd env st1 i (Cancel a) = Inr st1"
  using assms
proof (cases rule: apply_cmd_Inr)
  case (1 od) then show ?thesis using assms by simp
next
  case (2 od c)
  have tr: "cancel_tr env od a = Inr (Step c)" using 2(2) by simp
  have ow: "owner_or_admin env od a" using tr by (simp add: cancel_tr_def split: if_splits)
  have cs: "ch_status c = Cancelled \<or> ch_status c = AllCancelled" by (rule cancel_tr_status [OF tr])
  have l1: "load st1 i = Some (apply_change c od)" using 2(1,3) by (simp add: store_simps)
  have ow': "owner_or_admin env (apply_change c od) a" using ow by simp
  have st: "o_status (apply_change c od) = ch_status c" by (simp add: apply_change_def)
  have "cancel_tr env (apply_change c od) a = Inr NoOp"
    using ow' st cs by (auto simp: cancel_tr_def)
  then show ?thesis using l1 by (simp add: apply_cmd_def prepare_def commit_def)
qed

theorem cancel_idempotent_witness:
  "apply_cmd demo_env (projr (create demo_env empty_store demo_sub)) 0 (Cancel ''alice'') =
     Inr (projr (apply_cmd demo_env (projr (create demo_env empty_store demo_sub)) 0 (Cancel ''alice''))) \<and>
   apply_cmd demo_env (projr (apply_cmd demo_env (projr (create demo_env empty_store demo_sub)) 0 (Cancel ''alice'')))
     0 (Cancel ''alice'') =
     Inr (projr (apply_cmd demo_env (projr (create demo_env empty_store demo_sub)) 0 (Cancel ''alice'')))"
proof -
  let ?st = "projr (create demo_env empty_store demo_sub)"
  have h: "apply_cmd demo_env ?st 0 (Cancel ''alice'') = Inr (projr (apply_cmd demo_env ?st 0 (Cancel ''alice'')))"
    by (simp add: demo_eval cancel_tr_def owner_or_admin_def)
  show ?thesis by (rule conjI [OF h cancel_idempotent [OF h]])
qed

text \<open>C10. Terminal statuses absorb: no call succeeds in changing an order that is
  executed, cancelled or deleted; at most it is an idempotent cancel that leaves the
  store as it is.\<close>

theorem terminal_absorbing:
  assumes "load st i = Some od" "terminal (o_status od)" "apply_cmd env st i cmd = Inr st'"
  shows "st' = st"
  using assms(3)
proof (cases rule: apply_cmd_Inr)
  case (1 od') then show ?thesis by simp
next
  case (2 od' c)
  with assms(1) have "od' = od" by simp
  with 2(2) have "lifecycle (o_status od) (ch_status c)" by (simp add: transition_lifecycle)
  with assms(2) lifecycle_not_terminal show ?thesis by blast
qed

theorem terminal_absorbing_witness:
  "projr (apply_cmd demo_env (projr (apply_cmd demo_env (projr (create demo_env empty_store demo_sub)) 0
      (Cancel ''alice''))) 0 (Cancel ''root'')) =
   projr (apply_cmd demo_env (projr (create demo_env empty_store demo_sub)) 0 (Cancel ''alice''))"
proof -
  let ?st = "projr (apply_cmd demo_env (projr (create demo_env empty_store demo_sub)) 0 (Cancel ''alice''))"
  have l: "load ?st 0 = Some (hd (st_orders ?st))"
    by (simp add: demo_eval cancel_tr_def owner_or_admin_def)
  have t: "terminal (o_status (hd (st_orders ?st)))"
    by (simp add: demo_eval cancel_tr_def owner_or_admin_def)
  have h: "apply_cmd demo_env ?st 0 (Cancel ''root'') = Inr (projr (apply_cmd demo_env ?st 0 (Cancel ''root'')))"
    by (simp add: demo_eval cancel_tr_def owner_or_admin_def is_admin_def)
  show ?thesis by (rule terminal_absorbing [OF l t h])
qed

text \<open>C11. Only an assigned reviewer decides: an approval or a rejection that succeeds
  was made on an order awaiting review by an account of the step's eligible set.\<close>

theorem review_needs_eligibility:
  assumes "load st i = Some od"
    and "apply_cmd env st i (Approve a) = Inr st' \<or> apply_cmd env st i (Reject a m) = Inr st'"
  shows "reviewable (o_status od) \<and> a \<in> set (o_assigned od)"
proof -
  from assms(2) obtain out where
    "approve_tr env od a = Inr out \<or> reject_tr env od a m = Inr out"
    using apply_cmd_transition [OF _ assms(1)] by fastforce
  then show ?thesis by (auto simp: approve_tr_def reject_tr_def split: if_splits)
qed

theorem review_needs_eligibility_witness:
  "reviewable (o_status (hd (st_orders (projr (create demo_env empty_store demo_sub))))) \<and>
   ''bob'' \<in> set (o_assigned (hd (st_orders (projr (create demo_env empty_store demo_sub)))))"
proof -
  let ?st = "projr (create demo_env empty_store demo_sub)"
  have l: "load ?st 0 = Some (hd (st_orders ?st))" by (simp add: demo_eval)
  have h: "apply_cmd demo_env ?st 0 (Approve ''bob'') = Inr (projr (apply_cmd demo_env ?st 0 (Approve ''bob'')))
      \<or> apply_cmd demo_env ?st 0 (Reject ''bob'' []) = Inr (projr (apply_cmd demo_env ?st 0 (Approve ''bob'')))"
    by (simp add: demo_eval)
  show ?thesis by (rule review_needs_eligibility [OF l h])
qed

text \<open>C19. A commit changes nothing but the order it names: every other row keeps its
  place and its contents, no row is added or removed, and the named order keeps its
  ids, owner, source, database and kind.\<close>

theorem commit_frame:
  assumes "commit st p = Inr st'"
  shows "length (st_orders st') = length (st_orders st) \<and>
    (\<forall>k < length (st_orders st). o_id (st_orders st ! k) \<noteq> pr_id p \<longrightarrow> st_orders st' ! k = st_orders st ! k) \<and>
    map (\<lambda>od. (o_id od, o_work_id od, o_owner od, o_source od, o_database od, o_kind od)) (st_orders st') =
      map (\<lambda>od. (o_id od, o_work_id od, o_owner od, o_source od, o_database od, o_kind od)) (st_orders st) \<and>
    st_next_id st' = st_next_id st"
  using assms
proof (cases rule: commit_Inr)
  case (1 cur) then show ?thesis by simp
next
  case (2 cur c)
  have "length (st_orders st') = length (st_orders st)" "st_next_id st' = st_next_id st"
    using 2(5) by (simp_all add: write_change_def Let_def)
  with 2(5) show ?thesis using write_change_frame [of st "pr_id p" c cur] by (simp add: write_change_nth)
qed


theorem commit_frame_witness:
  "length (st_orders (projr (apply_cmd demo_env (projr (create demo_env empty_store demo_sub)) 0 (Approve ''bob''))))
     = length (st_orders (projr (create demo_env empty_store demo_sub))) \<and>
   map (\<lambda>od. (o_id od, o_work_id od, o_owner od, o_source od, o_database od, o_kind od))
     (st_orders (projr (apply_cmd demo_env (projr (create demo_env empty_store demo_sub)) 0 (Approve ''bob'')))) =
   map (\<lambda>od. (o_id od, o_work_id od, o_owner od, o_source od, o_database od, o_kind od))
     (st_orders (projr (create demo_env empty_store demo_sub))) \<and>
   st_next_id (projr (apply_cmd demo_env (projr (create demo_env empty_store demo_sub)) 0 (Approve ''bob''))) =
   st_next_id (projr (create demo_env empty_store demo_sub))"
proof -
  let ?st = "projr (create demo_env empty_store demo_sub)"
  let ?p = "projr (prepare demo_env ?st 0 (Approve ''bob''))"
  have cm: "commit ?st ?p = Inr (projr (apply_cmd demo_env ?st 0 (Approve ''bob'')))" by (simp add: demo_eval)
  show ?thesis using commit_frame [OF cm] by blast
qed

text \<open>C18. The audit trail and the event log are append-only and orders are never
  physically removed: every step of the engine, whichever call it creates, starts,
  commits or aborts, keeps the log, the events and the order ids as a prefix.\<close>

theorem sys_step_append_only:
  assumes "sys_step env s s'"
  shows "(\<exists>xs. st_audit (fst s') = st_audit (fst s) @ xs) \<and>
         (\<exists>ys. st_events (fst s') = st_events (fst s) @ ys) \<and>
         (\<exists>zs. map o_id (st_orders (fst s')) = map o_id (st_orders (fst s)) @ zs)"
  using assms
proof cases
  case (sys_create st sb st' ps) then show ?thesis using create_grows by simp
next
  case (sys_commit p ps st st')
  from sys_commit(4) show ?thesis
  proof (cases rule: commit_Inr)
    case (1 cur) then show ?thesis using sys_commit by simp
  next
    case (2 cur c) then show ?thesis using sys_commit by (simp add: write_change_grows write_change_ids)
  qed
qed auto

theorem sys_step_append_only_witness:
  "(\<exists>xs. st_audit (projr (create demo_env empty_store demo_sub)) = st_audit empty_store @ xs) \<and>
   (\<exists>ys. st_events (projr (create demo_env empty_store demo_sub)) = st_events empty_store @ ys) \<and>
   (\<exists>zs. map o_id (st_orders (projr (create demo_env empty_store demo_sub))) = map o_id (st_orders empty_store) @ zs)"
proof -
  have c: "create demo_env empty_store demo_sub = Inr (projr (create demo_env empty_store demo_sub))"
    by (simp add: demo_eval)
  show ?thesis using sys_step_append_only [OF sys_create [OF c, of "[]"]] by simp
qed

text \<open>C23. What an approval does, on every branch, through the prepare and the
  compare-and-swap commit of a call: an order not awaiting review is an invalid
  transition, an actor outside the step's eligible set is not eligible; an eligible
  approval of the last step makes the order \<open>AllEnded\<close> with no reviewers, otherwise
  the order moves to \<open>Reviewing\<close> at the next step with the resolver's set for it, or
  fails with \<open>NoReviewerAvailable\<close> when that set is empty; a successful approval emits
  exactly one \<open>StepCompleted\<close> event naming the next reviewers. The specification's
  scenario (\<open>bob\<close> approves \<open>W1\<close>, then approves again) is the witness.\<close>

theorem approve_outcome:
  assumes "load st i = Some od"
  shows "(\<not> reviewable (o_status od) \<longrightarrow> apply_cmd env st i (Approve a) = Inl InvalidTransition) \<and>
    (reviewable (o_status od) \<and> a \<notin> set (o_assigned od) \<longrightarrow>
       apply_cmd env st i (Approve a) = Inl NotEligible) \<and>
    (reviewable (o_status od) \<and> a \<in> set (o_assigned od) \<and> length (chain env) \<le> Suc (o_step od) \<longrightarrow>
       (\<exists>st'. apply_cmd env st i (Approve a) = Inr st' \<and>
          load st' i = Some (od\<lparr>o_status := AllEnded, o_step := Suc (o_step od), o_assigned := []\<rparr>) \<and>
          st_events st' = st_events st @ [\<lparr>ev_kind = StepCompleted, ev_order = i, ev_work_id = o_work_id od,
                                          ev_actor = a, ev_next = []\<rparr>])) \<and>
    (reviewable (o_status od) \<and> a \<in> set (o_assigned od) \<and> Suc (o_step od) < length (chain env) \<longrightarrow>
       (case resolve env (Suc (o_step od)) of
          None \<Rightarrow> apply_cmd env st i (Approve a) = Inl NoReviewerAvailable
        | Some el \<Rightarrow> (\<exists>st'. apply_cmd env st i (Approve a) = Inr st' \<and>
            load st' i = Some (od\<lparr>o_status := Reviewing, o_step := Suc (o_step od), o_assigned := el\<rparr>) \<and>
            st_events st' = st_events st @ [\<lparr>ev_kind = StepCompleted, ev_order = i, ev_work_id = o_work_id od,
                                            ev_actor = a, ev_next = el\<rparr>])))"
proof -
  have id: "o_id od = i" using load_Some [OF assms] by simp
  have ac: "apply_cmd env st i (Approve a) =
    (case approve_tr env od a of Inl e \<Rightarrow> Inl e | Inr NoOp \<Rightarrow> Inr st
       | Inr (Step c) \<Rightarrow> Inr (write_change st i c od))"
    using apply_cmd_transition_cases [OF assms] by simp
  have ld: "load (write_change st i c od) i = Some (apply_change c od)" for c
    using assms by (simp add: load_write_change)
  show ?thesis
    using ac ld id
    by (auto simp: approve_tr_def mk_change_def apply_change_def write_change_events event_of_def
        split: option.split)
qed

theorem approve_outcome_witness:
  "\<exists>st'. apply_cmd demo_env (projr (create demo_env empty_store demo_sub)) 0 (Approve ''bob'') = Inr st' \<and>
     apply_cmd demo_env st' 0 (Approve ''bob'') = Inl InvalidTransition \<and>
     st_events st' = st_events (projr (create demo_env empty_store demo_sub)) @
       [\<lparr>ev_kind = StepCompleted, ev_order = 0, ev_work_id = ''W1'', ev_actor = ''bob'', ev_next = []\<rparr>]"
proof -
  let ?st = "projr (create demo_env empty_store demo_sub)"
  let ?od = "hd (st_orders ?st)"
  have l: "load ?st 0 = Some ?od" by (simp add: demo_eval)
  have h: "reviewable (o_status ?od)" "''bob'' \<in> set (o_assigned ?od)" "length (chain demo_env) \<le> Suc (o_step ?od)"
    "o_work_id ?od = ''W1''"
    by (simp_all add: demo_eval)
  obtain st' where a: "apply_cmd demo_env ?st 0 (Approve ''bob'') = Inr st'"
    and l': "load st' 0 = Some (?od\<lparr>o_status := AllEnded, o_step := Suc (o_step ?od), o_assigned := []\<rparr>)"
    and ev: "st_events st' = st_events ?st @ [\<lparr>ev_kind = StepCompleted, ev_order = 0, ev_work_id = o_work_id ?od,
                ev_actor = ''bob'', ev_next = []\<rparr>]"
    using approve_outcome [OF l, of demo_env "''bob''"] h(1-3) by blast
  have "apply_cmd demo_env st' 0 (Approve ''bob'') = Inl InvalidTransition"
    using approve_outcome [OF l', of demo_env "''bob''"] by simp
  with a ev h(4) show ?thesis by auto
qed

text \<open>C32. The audit trail keeps one entry per \<open>(order, step, action)\<close>: a transition
  whose entry would repeat the key of an earlier entry still commits, and changes the
  order, but leaves the log as it was. After a reject, an edit back to step 0 and a
  second reject, the order is \<open>Rejected\<close> while its last audit entry records the edit
  (\<open>Created\<close>), against the specification's invariant that the latest entry matches the
  order's status.\<close>

theorem audit_dedupe_drops_repeat:
  assumes "load st i = Some od" "transition env od cmd = Inr (Step c)"
    and "list_ex (\<lambda>e. audit_key e = (i, ch_step c, ch_verb c)) (st_audit st)"
  shows "\<exists>st'. apply_cmd env st i cmd = Inr st' \<and> load st' i = Some (apply_change c od) \<and>
           st_audit st' = st_audit st"
proof -
  have id: "o_id od = i" using load_Some [OF assms(1)] by simp
  have "apply_cmd env st i cmd = Inr (write_change st i c od)"
    using apply_cmd_transition_cases [OF assms(1)] assms(2) by simp
  moreover have "load (write_change st i c od) i = Some (apply_change c od)"
    using assms(1) by (simp add: load_write_change)
  moreover have "st_audit (write_change st i c od) = st_audit st"
    using assms(3) id by (simp add: write_change_audit append_audit_def audit_key_def entry_of_def apply_change_def)
  ultimately show ?thesis by blast
qed

theorem audit_dedupe_drops_repeat_witness:
  "\<exists>st'. apply_cmd demo_env (projr (run_cmds demo_env (projr (create demo_env empty_store demo_sub))
            [(0, Reject ''bob'' ''too broad''), (0, Edit ''alice'' ''UPDATE t SET a = 2 WHERE id = 1'')]))
          0 (Reject ''bob'' ''still too broad'') = Inr st' \<and>
     load st' 0 = Some (apply_change (mk_change Rejected 0 [] VReject ''bob'' ''still too broad'' (Some OrderRejected))
       (hd (st_orders (projr (run_cmds demo_env (projr (create demo_env empty_store demo_sub))
            [(0, Reject ''bob'' ''too broad''), (0, Edit ''alice'' ''UPDATE t SET a = 2 WHERE id = 1'')]))))) \<and>
     st_audit st' = st_audit (projr (run_cmds demo_env (projr (create demo_env empty_store demo_sub))
            [(0, Reject ''bob'' ''too broad''), (0, Edit ''alice'' ''UPDATE t SET a = 2 WHERE id = 1'')]))"
proof -
  let ?st = "projr (run_cmds demo_env (projr (create demo_env empty_store demo_sub))
            [(0, Reject ''bob'' ''too broad''), (0, Edit ''alice'' ''UPDATE t SET a = 2 WHERE id = 1'')])"
  have l: "load ?st 0 = Some (hd (st_orders ?st))"
    by (simp add: demo_eval reject_tr_def edit_tr_def owner_or_admin_def)
  have t: "transition demo_env (hd (st_orders ?st)) (Reject ''bob'' ''still too broad'') =
      Inr (Step (mk_change Rejected 0 [] VReject ''bob'' ''still too broad'' (Some OrderRejected)))"
    by (simp add: demo_eval reject_tr_def edit_tr_def owner_or_admin_def)
  have d: "list_ex (\<lambda>e. audit_key e = (0, ch_step (mk_change Rejected 0 [] VReject ''bob'' ''still too broad''
      (Some OrderRejected)), ch_verb (mk_change Rejected 0 [] VReject ''bob'' ''still too broad''
      (Some OrderRejected)))) (st_audit ?st)"
    by (simp add: demo_eval reject_tr_def edit_tr_def owner_or_admin_def entry_of_def append_audit_def audit_key_def)
  show ?thesis by (rule audit_dedupe_drops_repeat [OF l t d])
qed

text \<open>C14. \<open>Conflict\<close> only comes from interleaving: a call whose prepare and commit
  see the same store never fails with \<open>Conflict\<close>, so a caller that retries on
  \<open>Conflict\<close> with a fresh read succeeds as soon as no other commit intervenes.\<close>

theorem apply_cmd_no_conflict:
  "apply_cmd env st i cmd \<noteq> Inl Conflict"
proof
  assume c: "apply_cmd env st i cmd = Inl Conflict"
  then obtain p where p: "prepare env st i cmd = Inr p" "commit st p = Inl Conflict"
    using transition_not_conflict [of env _ cmd]
    by (auto simp: apply_cmd_def prepare_def split: sum.splits option.splits)
  from p(1) show False
  proof (cases rule: prepare_Inr)
    case (1 od out)
    then show False using p(2) by (simp add: commit_def split: outcome.splits)
  qed
qed

end
