(* ===== verification/Search.thy ===== *)
theory Search
  imports Types Workflow "HOL-Library.Sublist"
begin

text \<open>
  Scoped search (specification, section 4.4): the worklist of a requester is
  \<open>GetSQLOrderList\<close> of \<open>types.go\<close> over the order table, with two kinds of scope: the
  visibility scope of the requester's role, and one scope per non-empty field of the
  \<open>Search\<close> criteria. The search reads the store and returns a page and a count; it
  has no state of its own.
\<close>

section \<open>Visibility and criteria\<close>

datatype search_role = OwnerRole | AuditorRole | AdminRole

record requester =
  rq_name :: string
  rq_role :: search_role

text \<open>Owner: own orders. Auditor: orders whose current eligible set holds the
  requester, and every order the audit trail shows the requester acting on. Admin:
  every order.\<close>

definition visible :: "store \<Rightarrow> requester \<Rightarrow> order scope" where
  "visible st rq od =
     (case rq_role rq of
        OwnerRole \<Rightarrow> o_owner od = rq_name rq
      | AuditorRole \<Rightarrow> rq_name rq \<in> set (o_assigned od) \<or>
          list_ex (\<lambda>e. au_order e = o_id od \<and> au_actor e = rq_name rq) (st_audit st)
      | AdminRole \<Rightarrow> True)"

text \<open>The filter object of section 9: a field left empty does not filter; the text
  criterion is a substring match. Only the work id, IDC, source, username and text of
  \<open>Search\<close> filter here. Not interpreted: \<open>Status\<close> and \<open>Type\<close>, integer codes whose
  meaning is defined outside the sources; \<open>Dept\<close>, a department of an account, which
  an order row does not carry; \<open>Picker\<close>, whose date-range use is not in the sources
  or the specification; and the flags \<open>Valve\<close> and \<open>Explain\<close>.\<close>

definition criteria :: "Search \<Rightarrow> order scope list" where
  "criteria s =
     (if s_WorkId s = [] then [] else [\<lambda>od. o_work_id od = s_WorkId s]) @
     (if s_IDC s = [] then [] else [\<lambda>od. o_idc od = s_IDC s]) @
     (if s_Source s = [] then [] else [\<lambda>od. o_source od = s_Source s]) @
     (if s_Username s = [] then [] else [\<lambda>od. o_owner od = s_Username s]) @
     (if s_Text s = [] then [] else [\<lambda>od. sublist (s_Text s) (o_text od)])"

definition ScopedSearch :: "wf_env \<Rightarrow> store \<Rightarrow> requester \<Rightarrow> PageInfo \<Rightarrow> order SQLOrder" where
  "ScopedSearch env st rq p =
     GetSQLOrderList (multi_approver env) o_id (st_orders st) p (visible st rq # criteria (pi_Find p))"

section \<open>Concrete stores\<close>

text \<open>Twenty orders of \<open>alice\<close>, ids 0 to 19, and a store holding them.\<close>

definition demo_order :: "nat \<Rightarrow> order" where
  "demo_order n =
     \<lparr>o_id = n, o_work_id = ''W'' @ [char_of (48 + n)], o_owner = ''alice'', o_text = ''UPDATE t SET a = 1'',
      o_backup = 1, o_date = ''2026-11-09'', o_real_name = ''Alice'', o_executor = [], o_status = Created,
      o_kind = ExecutionOrder, o_delay = [], o_source = ''s1'', o_idc = ''idc1'', o_database = ''d1'',
      o_table = ''t'', o_execute_time = [], o_assigned = [''bob''], o_step = 0, o_relevant = []\<rparr>"

definition demo_store20 :: store where
  "demo_store20 = \<lparr>st_orders = map demo_order [0..<20], st_audit = [], st_events = [], st_next_id = 20\<rparr>"

section \<open>Lemmas\<close>

lemma ScopedSearch_rows:
  "r \<in> set (so_List (ScopedSearch env st rq p)) \<Longrightarrow>
     r \<in> set (st_orders st) \<and> visible st rq r \<and> apply_scopes (criteria (pi_Find p)) r"
  using set_take_sql_offset
  by (fastforce simp: ScopedSearch_def GetSQLOrderList_eq apply_scopes_def)

lemma criteria_zero [simp]: "criteria Search_zero = []"
  by (simp add: criteria_def Search_zero_def)

lemma apply_scopes_visible_Cons:
  "apply_scopes (visible st rq # cs) = (\<lambda>od. visible st rq od \<and> apply_scopes cs od)"
  by (rule ext) (simp add: apply_scopes_def)

section \<open>Properties of the worklist\<close>

text \<open>C4. Visibility: a requester with the owner role never receives an order of
  another owner, on any page and with any criteria.\<close>

theorem ScopedSearch_owner_only:
  assumes "rq_role rq = OwnerRole"
  shows "list_all (\<lambda>od. o_owner od = rq_name rq) (so_List (ScopedSearch env st rq p))"
  using ScopedSearch_rows [of _ env st rq p] assms by (auto simp: list_all_iff visible_def)

theorem ScopedSearch_owner_only_witness:
  "list_all (\<lambda>od. o_owner od = ''carol'')
     (so_List (ScopedSearch demo_env demo_store20 \<lparr>rq_name = ''carol'', rq_role = OwnerRole\<rparr>
        \<lparr>pi_Page = 1, pi_Find = Search_zero, pi_Tp = []\<rparr>))"
  using ScopedSearch_owner_only [of "\<lparr>rq_name = ''carol'', rq_role = OwnerRole\<rparr>" demo_env demo_store20
      "\<lparr>pi_Page = 1, pi_Find = Search_zero, pi_Tp = []\<rparr>"]
  by simp

text \<open>C22. An admin's worklist without criteria counts every order of the store, on
  every page.\<close>

theorem ScopedSearch_admin_count:
  assumes "rq_role rq = AdminRole" "pi_Find p = Search_zero"
  shows "so_Count (ScopedSearch env st rq p) = length (st_orders st)"
  using assms by (simp add: ScopedSearch_def GetSQLOrderList_eq apply_scopes_visible_Cons visible_def
      apply_scopes_def)

theorem ScopedSearch_admin_count_witness:
  "so_Count (ScopedSearch demo_env demo_store20 \<lparr>rq_name = ''root'', rq_role = AdminRole\<rparr>
      \<lparr>pi_Page = 7, pi_Find = Search_zero, pi_Tp = []\<rparr>) = 20"
  using ScopedSearch_admin_count [of "\<lparr>rq_name = ''root'', rq_role = AdminRole\<rparr>"
      "\<lparr>pi_Page = 7, pi_Find = Search_zero, pi_Tp = []\<rparr>" demo_env demo_store20]
  by (simp add: demo_store20_def)

text \<open>C21. An auditor's worklist holds only orders whose current eligible set holds
  the auditor or on which the audit trail shows the auditor acting, and each of them
  matches every criterion given, e.g. the work id.\<close>

theorem ScopedSearch_auditor_rows:
  assumes "rq_role rq = AuditorRole" "od \<in> set (so_List (ScopedSearch env st rq p))"
  shows "od \<in> set (st_orders st) \<and>
    (rq_name rq \<in> set (o_assigned od) \<or> (\<exists>e \<in> set (st_audit st). au_order e = o_id od \<and> au_actor e = rq_name rq)) \<and>
    (s_WorkId (pi_Find p) \<noteq> [] \<longrightarrow> o_work_id od = s_WorkId (pi_Find p))"
  using ScopedSearch_rows [OF assms(2)] assms(1)
  by (auto simp: visible_def list_ex_iff criteria_def apply_scopes_def)

theorem ScopedSearch_auditor_rows_witness:
  "hd (st_orders (projr (create demo_env empty_store demo_sub))) \<in> set (st_orders (projr (create demo_env empty_store demo_sub))) \<and>
   o_work_id (hd (st_orders (projr (create demo_env empty_store demo_sub)))) = ''W1''"
proof -
  let ?st = "projr (create demo_env empty_store demo_sub)"
  have "hd (st_orders ?st) \<in> set (so_List (ScopedSearch demo_env ?st \<lparr>rq_name = ''bob'', rq_role = AuditorRole\<rparr>
      \<lparr>pi_Page = 1, pi_Find = Search_zero\<lparr>s_WorkId := ''W1''\<rparr>, pi_Tp = []\<rparr>))"
    by (simp add: demo_eval ScopedSearch_def GetSQLOrderList_eq matching_def order_id_desc_def sql_offset_def
        Paging_def criteria_def Search_zero_def apply_scopes_def visible_def)
  from ScopedSearch_auditor_rows [OF _ this] show ?thesis by simp
qed

text \<open>C12. Pagination (section 8): over 20 matching orders, page 2 holds exactly 5
  rows, and the count is 20 whatever page is asked for.\<close>

theorem ScopedSearch_page2_of_20:
  assumes "length (filter (apply_scopes (visible st rq # criteria (pi_Find p))) (st_orders st)) = 20"
    and "sint (pi_Page p) = 2"
  shows "length (so_List (ScopedSearch env st rq p)) = 5 \<and>
         so_Count (ScopedSearch env st rq (p\<lparr>pi_Page := q\<rparr>)) = 20"
proof -
  have "sint (fst (Paging (pi_Page p) 15)) = 15"
    using Paging_offset_exact [of "pi_Page p"] assms(2) by (simp add: page_bound_def)
  then show ?thesis using assms(1)
    by (simp add: ScopedSearch_def GetSQLOrderList_eq page_simps)
qed

theorem ScopedSearch_page2_of_20_witness:
  "length (so_List (ScopedSearch demo_env demo_store20 \<lparr>rq_name = ''alice'', rq_role = OwnerRole\<rparr>
      \<lparr>pi_Page = 2, pi_Find = Search_zero, pi_Tp = []\<rparr>)) = 5 \<and>
   so_Count (ScopedSearch demo_env demo_store20 \<lparr>rq_name = ''alice'', rq_role = OwnerRole\<rparr>
      \<lparr>pi_Page = 9, pi_Find = Search_zero, pi_Tp = []\<rparr>) = 20"
proof -
  have n: "length (filter (apply_scopes (visible demo_store20 \<lparr>rq_name = ''alice'', rq_role = OwnerRole\<rparr> #
      criteria Search_zero)) (st_orders demo_store20)) = 20"
    by (simp add: demo_store20_def demo_order_def apply_scopes_def visible_def)
  from ScopedSearch_page2_of_20 [of demo_store20 "\<lparr>rq_name = ''alice'', rq_role = OwnerRole\<rparr>"
      "\<lparr>pi_Page = 2, pi_Find = Search_zero, pi_Tp = []\<rparr>" demo_env 9] n
  show ?thesis by simp
qed

text \<open>C33. An auditor finds in its worklist every order whose current eligible set
  holds it or on which the audit trail shows it acting: with no criteria, the order is
  on page \<open>k div 15 + 1\<close> for its position \<open>k\<close> in the id-descending list, for any store
  whose size keeps the page numbers in the 64-bit range.\<close>

theorem ScopedSearch_auditor_complete:
  assumes "rq_role rq = AuditorRole" "pi_Find p = Search_zero" "od \<in> set (st_orders st)"
    and "rq_name rq \<in> set (o_assigned od) \<or>
         list_ex (\<lambda>e. au_order e = o_id od \<and> au_actor e = rq_name rq) (st_audit st)"
    and "length (st_orders st) \<le> nat page_bound"
  shows "\<exists>n. n \<le> length (st_orders st) div 15 \<and>
           od \<in> set (so_List (ScopedSearch env st rq (p\<lparr>pi_Page := of_nat (Suc n)\<rparr>)))"
proof -
  let ?m = "matching [visible st rq] o_id (st_orders st)"
  have "od \<in> set ?m" using assms(1,3,4) by (simp add: apply_scopes_def visible_def)
  then obtain k where k: "k < length ?m" "?m ! k = od" unfolding in_set_conv_nth by blast
  have len: "length ?m \<le> length (st_orders st)" by simp
  have n: "k div 15 < nat page_bound" using k(1) len assms(5) by linarith
  have "so_List (ScopedSearch env st rq (p\<lparr>pi_Page := of_nat (Suc (k div 15))\<rparr>)) =
      take 15 (drop (k div 15 * 15) ?m)"
    using GetSQLOrderList_nth_page [OF n, of "multi_approver env" o_id "st_orders st" p "[visible st rq]"] assms(2)
    by (simp add: ScopedSearch_def)
  moreover have "k \<le> length (st_orders st)" using k(1) len by linarith
  then have "k div 15 \<le> length (st_orders st) div 15" by (rule div_le_mono)
  ultimately show ?thesis using nth_in_window [OF k(1)] k(2) by metis
qed

theorem ScopedSearch_auditor_complete_witness:
  "\<exists>n. n \<le> length (st_orders demo_store20) div 15 \<and>
     demo_order 3 \<in> set (so_List (ScopedSearch demo_env demo_store20 \<lparr>rq_name = ''bob'', rq_role = AuditorRole\<rparr>
       (\<lparr>pi_Page = 1, pi_Find = Search_zero, pi_Tp = []\<rparr>\<lparr>pi_Page := of_nat (Suc n)\<rparr>)))"
proof -
  have a: "demo_order 3 \<in> set (st_orders demo_store20)"
    by (simp add: demo_store20_def image_iff) (rule bexI [of _ 3], simp_all)
  have b: "''bob'' \<in> set (o_assigned (demo_order 3))" by (simp add: demo_order_def)
  have c: "length (st_orders demo_store20) \<le> nat page_bound" by (simp add: demo_store20_def page_bound_def)
  show ?thesis
    using ScopedSearch_auditor_complete [where rq = "\<lparr>rq_name = ''bob'', rq_role = AuditorRole\<rparr>"
        and p = "\<lparr>pi_Page = 1, pi_Find = Search_zero, pi_Tp = []\<rparr>" and od = "demo_order 3"
        and st = demo_store20 and env = demo_env] a b c
    by simp
qed

end
