(* ===== verification/Spec2Isabelle.thy ===== *)
theory Spec2Isabelle
  imports Types Login Notify Workflow Search
begin

text \<open>
  \<^bold>\<open>A verification library for Yearning's order backend.\<close>

  Yearning is a change-management server: users submit SQL orders, reviewers approve
  them step by step, and worklists show each user the orders of their role. The
  repository's sources are three Go files:
  \<^item> \<open>src/handler/commom/types.go\<close>: the request and response
    shapes, the status labels, and
    \<open>GetSQLOrderList\<close>/\<open>GetSQLQueryList\<close>, which render one
    worklist page of 15 rows through \<open>lib.Paging\<close> and a gorm query with
    caller-supplied scopes;
  \<^item> \<open>src/handler/login/login.go\<close>: LDAP, local, and GitLab OAuth
    login, and self registration, over the account and permission tables;
  \<^item> \<open>src/lib/wx.go\<close>: the recipients of a WeCom notification and
    its dispatch.
  The workflow engine that the specification makes the core (state machine, assignment
  resolver, audit trail, compare-and-swap commits, scoped search) is not among them; it
  is modelled from the specification. The parts interact as the specification's data
  flow says: a call of the engine decides a transition with the resolver's eligible
  set, commits it, appends the audit entry and emits an event for the notification
  bridge; the worklist reads the store through the search scopes and the list query of
  \<open>types.go\<close>; accounts come from the login handlers.

  \<^bold>\<open>Theories.\<close>
  \<^item> \<open>Prelude\<close>: the 64-bit \<open>int64\<close> of Go's \<open>int\<close>, scopes as predicates, the rule
    collections \<open>page_simps\<close> and \<open>store_simps\<close>, and list and word lemmas (windows of
    a list, exact 64-bit conversions).
  \<^item> \<open>Types\<close> models \<open>types.go\<close>: its structs as records, the thirteen status labels
    as the file holds them, and the list query. \<open>Paging\<close> (from \<open>lib\<close>, not under
    \<open>src/\<close>) computes the offset \<open>page * 15 - 15\<close> in 64-bit words; \<open>Query\<close> is the
    repository contract: filter by the conjunction of the scopes, count, order by \<open>id\<close>
    descending, then offset and limit, each dropped when negative as gorm does. The
    count does not depend on the page (\<open>GetSQLOrderList_count\<close>); page \<open>n\<close> is the
    window \<open>15 (n - 1) ..\<close> of the matching rows (\<open>GetSQLOrderList_page\<close>); pages tile
    the matching rows (\<open>GetSQLOrderList_pages_cover\<close>); every row passes every scope
    (\<open>GetSQLOrderList_rows_scoped\<close>); pages below 1 give the first page
    (\<open>GetSQLOrderList_low_page\<close>). \<open>page_bound = (2 ^ 63 - 1) div 15\<close> bounds the
    pages on which these theorems are stated, so that the offset does not wrap.
  \<^item> \<open>Login\<close> models every handler of \<open>login.go\<close> (\<open>UserLdapLogin\<close>,
    \<open>UserGitlabLogin\<close>, \<open>Setup\<close>, \<open>HandleCallback\<close>, \<open>UserGeneralLogin\<close>,
    \<open>UserRegister\<close>, \<open>gitlabUserRegister\<close>, \<open>getGitlabUserInfo\<close>) as a function of the
    request, the account tables and a record \<open>Services\<close> of the external collaborators
    (LDAP bind, password check, JWT signing, OAuth exchange, GitLab API, collation),
    returning the reply and the new tables; the replies include the silent return and
    the nil-pointer panics of the code, among them \<open>ERR_COMMON_MESSAGE\<close> of a nil error
    (\<open>reply_common\<close>). \<open>serve\<close> runs a sequence of requests. The tables only grow, with
    guest accounts (\<open>serve_accounts_grow_guest\<close>), and stay well formed
    (\<open>serve_accounts_wf\<close>); the branch theorems give each handler's reply and writes,
    its bugs included (\<open>UserGeneralLogin_success\<close>, \<open>UserLdapLogin_first_login\<close>,
    \<open>UserLdapLogin_known_user\<close>, \<open>HandleCallback_new_user\<close>,
    \<open>HandleCallback_nil_user\<close>, \<open>HandleCallback_token_error\<close>,
    \<open>UserGeneralLogin_token_error\<close>, \<open>UserRegister_outcome\<close>,
    \<open>UserRegister_empty_name_twice\<close>).
  \<^item> \<open>Notify\<close> models \<open>wx.go\<close>: the recipient table \<open>userIds\<close>, \<open>whoNeedToSend\<close>
    and \<open>SendWxMsg\<close> with the WeCom client as a parameter; its properties are those of
    the notification bridge below.
  \<^item> \<open>Workflow\<close> models the engine (specification, sections 4.1--4.3, 5, 7): orders
    (rows of \<open>core_sql_orders\<close> with the columns \<open>QueryField\<close> of \<open>types.go\<close>
    selects), statuses, the resolver \<open>resolve\<close>, the audit trail
    \<open>append_audit\<close>/\<open>History\<close>, one transition function per call, and each call split
    into \<open>prepare\<close> (decide on a snapshot) and \<open>commit\<close> (compare-and-swap on
    \<open>(status, current_step)\<close>, then the write of the row, the audit entry and the
    event). \<open>sys_step\<close> interleaves creates, prepares and commits of any number of
    calls; \<open>lifecycle\<close> is the abstract state machine. The invariant holds in every
    reachable state (\<open>sys_reach_orders_ok\<close>); commits refine \<open>lifecycle\<close>
    (\<open>commit_refines_lifecycle\<close>); of two racing approvals one wins
    (\<open>approve_race\<close>); the compare-and-swap key misses an edit (\<open>edit_approve_race\<close>);
    a call that is not interleaved never conflicts (\<open>apply_cmd_no_conflict\<close>);
    approval on every branch (\<open>approve_outcome\<close>); idempotent cancel
    (\<open>cancel_idempotent\<close>); terminal statuses (\<open>terminal_absorbing\<close>); eligibility
    (\<open>review_needs_eligibility\<close>); the frame of a commit (\<open>commit_frame\<close>); append-only
    logs (\<open>sys_step_append_only\<close>); and the audit deduplication that drops a
    repeated key (\<open>audit_dedupe_drops_repeat\<close>).
  \<^item> \<open>Search\<close> models scoped search: the visibility scope of the owner, auditor and
    admin roles and the criteria of a \<open>Search\<close> as scopes of \<open>GetSQLOrderList\<close>. Owner
    visibility (\<open>ScopedSearch_owner_only\<close>), auditor rows and their completeness over
    the pages (\<open>ScopedSearch_auditor_rows\<close>, \<open>ScopedSearch_auditor_complete\<close>), admin
    counts (\<open>ScopedSearch_admin_count\<close>), and the page-2-of-20 example of the
    specification stated for any store (\<open>ScopedSearch_page2_of_20\<close>).
  \<^item> This theory connects the engine to \<open>wx.go\<close>: \<open>engine_call\<close> runs one call and
    hands every event it emitted to \<open>SendWxMsg\<close> (\<open>notify\<close>), with the label constant
    of \<open>types.go\<close> for the event as the text (\<open>event_label\<close>). A successful approval
    sends exactly one message, to the next reviewer, with the label of its outcome
    (\<open>approve_notifies_once\<close>).

  No definition uses fuel: every function of the model is structurally recursive or
  non-recursive, and the engine's concurrency is an inductive relation whose
  invariants are proved by rule induction.

  \<^bold>\<open>Not modelled.\<close> HTTP binding and JSON encoding, gorm's logging switch
  (\<open>LogMode\<close>), and the network calls (LDAP bind, OAuth exchange, WeCom delivery),
  which enter the model only through their results; database errors other than a
  missing row; the \<open>Status\<close>, \<open>Type\<close>, \<open>Dept\<close>, \<open>Picker\<close>, \<open>Valve\<close> and
  \<open>Explain\<close> fields of \<open>Search\<close> (see \<open>criteria\<close>); the projection of
  \<open>Select(QueryField)\<close>, which drops \<open>id\<close> from the rows the worklist returns (the
  model's rows keep it).
\<close>

section \<open>The notification bridge\<close>

text \<open>
  The bridge between the engine and \<open>wx.go\<close>: each event the engine emits is sent
  with \<open>SendWxMsg\<close> as a message from the actor to the first of the next actors, whose
  text is the label constant of \<open>types.go\<close> for the event. \<open>email\<close> is the identity
  contract's address of an account. The labels for a completed step distinguish the
  last step (\<open>ORDER_IS_ALL_END\<close>) from an intermediate one (\<open>ORDER_IS_AGREE\<close>).
\<close>

definition event_label :: "wf_event \<Rightarrow> string" where
  "event_label ev =
     (case ev_kind ev of
        OrderCreated \<Rightarrow> ORDER_IS_CREATE
      | StepCompleted \<Rightarrow> (if ev_next ev = [] then ORDER_IS_ALL_END else ORDER_IS_AGREE)
      | OrderRejected \<Rightarrow> ORDER_IS_REJECT
      | OrderExecuted \<Rightarrow> ORDER_IS_END
      | OrderCancelled \<Rightarrow> ORDER_IS_ALL_CANCEL)"

definition event_message :: "(string \<Rightarrow> string) \<Rightarrow> wf_event \<Rightarrow> Message" where
  "event_message email ev =
     \<lparr>msg_User = email (ev_actor ev),
      msg_ToUser = (case ev_next ev of [] \<Rightarrow> [] | u # _ \<Rightarrow> email u)\<rparr>"

definition notify :: "WxApp \<Rightarrow> (string \<Rightarrow> string) \<Rightarrow> wf_event list \<Rightarrow> WxState \<Rightarrow> WxState" where
  "notify app email evs wx = fold (\<lambda>ev. SendWxMsg app (event_message email ev) (event_label ev)) evs wx"

text \<open>One engine call followed by the delivery of the events it emitted.\<close>

definition engine_call ::
  "wf_env \<Rightarrow> WxApp \<Rightarrow> (string \<Rightarrow> string) \<Rightarrow> store \<Rightarrow> WxState \<Rightarrow> nat \<Rightarrow> command \<Rightarrow>
     (wf_error + store) \<times> WxState" where
  "engine_call env app email st wx i cmd =
     (case apply_cmd env st i cmd of
        Inl e \<Rightarrow> (Inl e, wx)
      | Inr st' \<Rightarrow> (Inr st', notify app email (drop (length (st_events st)) (st_events st')) wx))"

definition demo_email :: "string \<Rightarrow> string" where
  "demo_email u =
     (if u = ''alice'' then ''jun.liu@aylaasia.com'' else if u = ''bob'' then ''tao.chen@aylaasia.com'' else [])"

text \<open>A WeCom client whose every send fails.\<close>

definition wx_down :: WxApp where
  "wx_down = \<lparr>wx_send = (\<lambda>ids txt. Some ''connection refused'')\<rparr>"

definition wx0 :: WxState where
  "wx0 = \<lparr>outbox = [], wx_log = []\<rparr>"

section \<open>Lemmas\<close>

lemma outbox_notify:
  "outbox (notify app email evs wx) =
     outbox wx @ map (\<lambda>ev. (whoNeedToSend (event_message email ev), event_label ev)) evs"
  by (induction evs arbitrary: wx) (simp_all add: notify_def)

lemma approve_tr_step:
  assumes "approve_tr env od a = Inr out"
  shows "\<exists>c. out = Step c \<and> ch_event c = Some StepCompleted \<and> ch_actor c = a \<and>
           (ch_status c = AllEnded \<longleftrightarrow> ch_assigned c = [])"
  using assms resolve_Some [of env "Suc (o_step od)"]
  by (auto simp: approve_tr_def mk_change_def split: if_splits option.splits)

section \<open>Properties across components\<close>

text \<open>C20. A successful approval is announced exactly once through \<open>wx.go\<close>, whatever
  the WeCom client answers: the outbox receives one message, sent by the approver to
  the first reviewer of the next step (no one when the chain is complete), with the
  text \<open>ORDER_IS_ALL_END\<close> when the order became \<open>AllEnded\<close> and \<open>ORDER_IS_AGREE\<close>
  otherwise.\<close>

theorem approve_notifies_once:
  assumes "load st i = Some od" "apply_cmd env st i (Approve a) = Inr st'"
  shows "\<exists>od'. load st' i = Some od' \<and>
     outbox (snd (engine_call env app email st wx i (Approve a))) = outbox wx @
       [(whoNeedToSend \<lparr>msg_User = email a,
                        msg_ToUser = (case o_assigned od' of [] \<Rightarrow> [] | u # _ \<Rightarrow> email u)\<rparr>,
         if o_status od' = AllEnded then ORDER_IS_ALL_END else ORDER_IS_AGREE)]"
proof -
  have ac: "apply_cmd env st i (Approve a) =
    (case approve_tr env od a of Inl e \<Rightarrow> Inl e | Inr NoOp \<Rightarrow> Inr st
       | Inr (Step c) \<Rightarrow> Inr (write_change st i c od))"
    using apply_cmd_transition_cases [OF assms(1)] by simp
  obtain out where tr: "approve_tr env od a = Inr out"
    using assms(2) ac by (cases "approve_tr env od a") auto
  obtain c where c: "out = Step c" "ch_event c = Some StepCompleted" "ch_actor c = a"
    "ch_status c = AllEnded \<longleftrightarrow> ch_assigned c = []"
    using approve_tr_step [OF tr] by blast
  have st': "st' = write_change st i c od" using assms(2) ac tr c(1) by simp
  let ?od' = "apply_change c od"
  have l: "load st' i = Some ?od'" using st' assms(1) by (simp add: load_write_change)
  have ev: "drop (length (st_events st)) (st_events st') = [event_of StepCompleted ?od' a]"
    using st' c(2,3) by (simp add: write_change_events)
  have od': "o_assigned ?od' = ch_assigned c" "o_status ?od' = ch_status c"
    by (simp_all add: apply_change_def)
  have "outbox (snd (engine_call env app email st wx i (Approve a))) = outbox wx @
      [(whoNeedToSend (event_message email (event_of StepCompleted ?od' a)),
        event_label (event_of StepCompleted ?od' a))]"
    using assms(2) ev by (simp add: engine_call_def outbox_notify)
  then show ?thesis using l od' c(4)
    by (simp add: event_message_def event_label_def event_of_def)
qed

theorem approve_notifies_once_witness:
  "\<exists>od'. load (projr (apply_cmd demo_env (projr (create demo_env empty_store demo_sub)) 0 (Approve ''bob''))) 0
       = Some od' \<and>
     outbox (snd (engine_call demo_env wx_down demo_email (projr (create demo_env empty_store demo_sub)) wx0 0
       (Approve ''bob''))) =
       [(whoNeedToSend \<lparr>msg_User = demo_email ''bob'',
                        msg_ToUser = (case o_assigned od' of [] \<Rightarrow> [] | u # _ \<Rightarrow> demo_email u)\<rparr>,
         if o_status od' = AllEnded then ORDER_IS_ALL_END else ORDER_IS_AGREE)]"
proof -
  let ?st = "projr (create demo_env empty_store demo_sub)"
  have l: "load ?st 0 = Some (hd (st_orders ?st))" by (simp add: demo_eval)
  have a: "apply_cmd demo_env ?st 0 (Approve ''bob'') = Inr (projr (apply_cmd demo_env ?st 0 (Approve ''bob'')))"
    by (simp add: demo_eval)
  show ?thesis using approve_notifies_once [OF l a, of wx_down demo_email wx0] by (simp add: wx0_def)
qed

end
